theory Spec2Isabelle
  imports Main "HOL-Library.Word"
begin

unbundle bit_operations_syntax

section \<open>Machine types and platform constants\<close>

text \<open>
  The header \<^verbatim>\<open>src/bridge/unix-sockets.hpp\<close> is written against the POSIX socket
  interface. C \<^verbatim>\<open>int\<close> (descriptors, return values, \<^verbatim>\<open>std::errc\<close>) is a 32-bit word read
  as two's complement, \<^verbatim>\<open>short\<close> (poll masks) a 16-bit word, \<^verbatim>\<open>socklen_t\<close> an unsigned
  32-bit word. The constants of the system headers are the Linux ones.
\<close>

type_synonym int32 = "32 word"
type_synonym short = "16 word"
type_synonym socklen_t = "32 word"
type_synonym Descriptor = int32
type_synonym errc = int32

definition POLLIN :: short where "POLLIN = 0x001"
definition POLLPRI :: short where "POLLPRI = 0x002"
definition POLLOUT :: short where "POLLOUT = 0x004"
definition POLLERR :: short where "POLLERR = 0x008"
definition POLLHUP :: short where "POLLHUP = 0x010"
definition POLLNVAL :: short where "POLLNVAL = 0x020"

definition AF_UNIX :: short where "AF_UNIX = 1"
definition SOCK_SEQPACKET :: int32 where "SOCK_SEQPACKET = 5"
definition SOL_SOCKET :: int32 where "SOL_SOCKET = 1"
definition SO_ERROR :: int32 where "SO_ERROR = 4"
definition F_GETFL :: int32 where "F_GETFL = 3"
definition F_SETFL :: int32 where "F_SETFL = 4"
definition O_NONBLOCK :: int32 where "O_NONBLOCK = 0x800"

text \<open>\<^verbatim>\<open>std::errc::operation_would_block\<close> is EWOULDBLOCK and
  \<^verbatim>\<open>std::errc::resource_unavailable_try_again\<close> is EAGAIN; \<^verbatim>\<open>std::errc()\<close> is 0.\<close>

definition operation_would_block :: errc where "operation_would_block = 11"
definition resource_unavailable_try_again :: errc where "resource_unavailable_try_again = 11"
definition connection_refused :: errc where "connection_refused = 111"

text \<open>\<^verbatim>\<open>sizeof(sockaddr_un)\<close> and \<^verbatim>\<open>sizeof(sockaddr_un::sun_path)\<close>.\<close>

definition sizeof_sockaddr_un :: nat where "sizeof_sockaddr_un = 110"
definition sizeof_sun_path :: nat where "sizeof_sun_path = 108"

definition NUL :: char where "NUL = CHR 0x00"

section \<open>Failures\<close>

text \<open>
  Every \<^verbatim>\<open>throw\<close> of the header is a value: \<^verbatim>\<open>std::system_error\<close> with its code,
  \<^verbatim>\<open>std::invalid_argument\<close> and \<^verbatim>\<open>std::length_error\<close> with their message, and the
  \<^verbatim>\<open>std::out_of_range\<close> of \<^verbatim>\<open>vector::at\<close>. \<open>UndefinedBehaviour\<close> marks an execution
  the C++ standard gives no meaning to (a write past an array, \<^verbatim>\<open>erase\<close> of an iterator
  that is not dereferenceable, the use of a destroyed object).
\<close>

datatype error =
    SystemError errc
  | InvalidArgument string
  | LengthError string
  | OutOfRange
  | UndefinedBehaviour

section \<open>The operating system\<close>

text \<open>
  A system call is recorded with the arguments the header passes. Buffers of
  \<^verbatim>\<open>send\<close>/\<^verbatim>\<open>recv\<close> are caller memory and appear by their length only. The calls
  listed are those of the operations modelled below.
\<close>

record sockaddr_un =
  sun_family :: short
  sun_path :: "char list"

record pollfd =
  fd :: int32
  events :: short
  revents :: short

datatype syscall =
    SYS_socket int32 int32 int32
  | SYS_close Descriptor
  | SYS_fcntl Descriptor int32 int32
  | SYS_getsockopt Descriptor int32 int32
  | SYS_connect Descriptor sockaddr_un socklen_t
  | SYS_accept Descriptor
  | SYS_send Descriptor int32 int32
  | SYS_recv Descriptor int32 int32

text \<open>
  What the kernel answers: the return value as the header casts it to \<^verbatim>\<open>int\<close>,
  \<^verbatim>\<open>errno\<close> after the call, and what it wrote through the out-parameters
  (\<open>out_int\<close> for \<^verbatim>\<open>getsockopt\<close>, \<open>out_addr\<close> and \<open>out_len\<close> for \<^verbatim>\<open>accept\<close>).
\<close>

record os_reply =
  ret :: int32
  errno :: int32
  out_int :: int32
  out_addr :: sockaddr_un
  out_len :: socklen_t

text \<open>
  The world is the list of system calls issued so far, oldest first. The kernel is any
  function of that history and of the call.
\<close>

type_synonym world = "syscall list"
type_synonym os = "world \<Rightarrow> syscall \<Rightarrow> os_reply"

definition invoke :: "os \<Rightarrow> syscall \<Rightarrow> world \<Rightarrow> os_reply \<times> world" where
  "invoke k c w = (k w c, w @ [c])"

section \<open>SysReturn, SysCall, SysCallBlocking\<close>

record SysReturn =
  mCode :: errc
  mValue :: int32

definition sNotAnError :: errc where "sNotAnError = 0"

definition SysReturn_int :: "int32 \<Rightarrow> SysReturn" where
  "SysReturn_int val = \<lparr>mCode = sNotAnError, mValue = val\<rparr>"

definition SysReturn_errc :: "errc \<Rightarrow> SysReturn" where
  "SysReturn_errc code = \<lparr>mCode = code, mValue = 0\<rparr>"

definition IsError :: "SysReturn \<Rightarrow> bool" where
  "IsError r = (mCode r \<noteq> sNotAnError)"

definition Unwrap :: "SysReturn \<Rightarrow> error + int32" where
  "Unwrap r = (if IsError r then Inl (SystemError (mCode r)) else Inr (mValue r))"

definition GetCode :: "SysReturn \<Rightarrow> errc" where
  "GetCode r = mCode r"

definition SysCall :: "os \<Rightarrow> syscall \<Rightarrow> world \<Rightarrow> SysReturn \<times> world" where
  "SysCall k c w =
     (let (r, w') = invoke k c w;
          result = ret r
      in if result \<noteq> - 1 then (SysReturn_int result, w')
         else (SysReturn_errc (errno r), w'))"

definition SysCallBlocking :: "os \<Rightarrow> syscall \<Rightarrow> world \<Rightarrow> SysReturn option \<times> world" where
  "SysCallBlocking k c w =
     (let (r, w') = invoke k c w;
          result = ret r
      in if result \<noteq> - 1 then (Some (SysReturn_int result), w')
         else let code = errno r
              in if code = operation_would_block \<or> code = resource_unavailable_try_again
                 then (None, w')
                 else (Some (SysReturn_errc code), w'))"

section \<open>event::Result and event::Poller\<close>

definition Readable :: short where "Readable = POLLIN"
definition Priority :: short where "Priority = POLLPRI"
definition Writable :: short where "Writable = POLLOUT"

datatype Result = Result (Result_v: short)

definition IsReadable :: "Result \<Rightarrow> bool" where
  "IsReadable res = (Result_v res AND POLLIN \<noteq> 0)"
definition IsPriority :: "Result \<Rightarrow> bool" where
  "IsPriority res = (Result_v res AND POLLPRI \<noteq> 0)"
definition IsWritable :: "Result \<Rightarrow> bool" where
  "IsWritable res = (Result_v res AND POLLOUT \<noteq> 0)"
definition IsErrored :: "Result \<Rightarrow> bool" where
  "IsErrored res = (Result_v res AND POLLERR \<noteq> 0)"
definition IsClosed :: "Result \<Rightarrow> bool" where
  "IsClosed res = (Result_v res AND POLLHUP \<noteq> 0)"
definition IsInvalid :: "Result \<Rightarrow> bool" where
  "IsInvalid res = (Result_v res AND POLLNVAL \<noteq> 0)"

record Poller =
  mPollList :: "pollfd list"

definition AddConnector :: "Poller \<Rightarrow> Descriptor \<Rightarrow> Poller" where
  "AddConnector p descriptor =
     p\<lparr>mPollList := mPollList p @ [\<lparr>fd = descriptor, events = Readable OR Writable, revents = 0\<rparr>]\<rparr>"

definition AddAcceptor :: "Poller \<Rightarrow> Descriptor \<Rightarrow> Poller" where
  "AddAcceptor p descriptor =
     p\<lparr>mPollList := mPollList p @ [\<lparr>fd = descriptor, events = Readable, revents = 0\<rparr>]\<rparr>"

text \<open>
  \<^verbatim>\<open>mPollList.at(idx)\<close> converts the \<^verbatim>\<open>int\<close> to \<^verbatim>\<open>size_type\<close>: a negative index becomes a
  value of at least \<open>2^63\<close>, above the size of any vector, so \<^verbatim>\<open>at\<close> throws for it as it
  does for an index at or past the size. \<open>At\<close> is \<^verbatim>\<open>const\<close>; the poller is returned
  beside the result to state that.
\<close>

definition At :: "Poller \<Rightarrow> int32 \<Rightarrow> (error + Result) \<times> Poller" where
  "At p idx =
     (if 0 \<le> sint idx \<and> nat (sint idx) < length (mPollList p)
      then (Inr (Result (revents (mPollList p ! nat (sint idx)))), p)
      else (Inl OutOfRange, p))"

text \<open>
  \<^verbatim>\<open>mPollList.erase(mPollList.begin() + idx)\<close> is defined only for the position of an
  element.
\<close>

definition Remove :: "Poller \<Rightarrow> int32 \<Rightarrow> error + Poller" where
  "Remove p idx =
     (if 0 \<le> sint idx \<and> nat (sint idx) < length (mPollList p)
      then Inr (p\<lparr>mPollList := take (nat (sint idx)) (mPollList p) @ drop (Suc (nat (sint idx))) (mPollList p)\<rparr>)
      else Inl UndefinedBehaviour)"

definition Clear :: "Poller \<Rightarrow> Poller" where
  "Clear p = p\<lparr>mPollList := []\<rparr>"

text \<open>\<^verbatim>\<open>static_cast<int>(mPollList.size())\<close>: the size modulo \<open>2^32\<close>.\<close>

definition Poller_GetSize :: "Poller \<Rightarrow> int32" where
  "Poller_GetSize p = word_of_nat (length (mPollList p))"

section \<open>Socket\<close>

record Socket =
  mDescriptor :: Descriptor
  mIsReadable :: bool
  mIsWritable :: bool
  mIsNonBlocking :: bool

definition sInvalidSocket :: Descriptor where "sInvalidSocket = - 1"

definition GetDescriptor :: "'a Socket_scheme \<Rightarrow> Descriptor" where
  "GetDescriptor s = mDescriptor s"

definition GetAndResetIsReadable :: "'a Socket_scheme \<Rightarrow> bool \<times> 'a Socket_scheme" where
  "GetAndResetIsReadable s =
     (let temp = mIsReadable s; s' = s\<lparr>mIsReadable := False\<rparr>
      in (temp \<or> \<not> mIsNonBlocking s', s'))"

definition GetAndResetIsWritable :: "'a Socket_scheme \<Rightarrow> bool \<times> 'a Socket_scheme" where
  "GetAndResetIsWritable s =
     (let temp = mIsWritable s; s' = s\<lparr>mIsWritable := False\<rparr>
      in (temp \<or> \<not> mIsNonBlocking s', s'))"

definition Socket_new :: "Descriptor \<Rightarrow> Socket" where
  "Socket_new descriptor =
     \<lparr>mDescriptor = descriptor, mIsReadable = False, mIsWritable = False, mIsNonBlocking = False\<rparr>"

definition GetStatusFlags :: "os \<Rightarrow> 'a Socket_scheme \<Rightarrow> world \<Rightarrow> (error + int32) \<times> world" where
  "GetStatusFlags k s w =
     (let (r, w') = SysCall k (SYS_fcntl (mDescriptor s) F_GETFL 0) w in (Unwrap r, w'))"

definition SetStatusFlags :: "os \<Rightarrow> 'a Socket_scheme \<Rightarrow> int32 \<Rightarrow> world \<Rightarrow> (error + unit) \<times> world" where
  "SetStatusFlags k s flags w =
     (let (r, w') = SysCall k (SYS_fcntl (mDescriptor s) F_SETFL flags) w
      in (case Unwrap r of Inl e \<Rightarrow> Inl e | Inr _ \<Rightarrow> Inr (), w'))"

definition SetNonBlocking ::
  "os \<Rightarrow> 'a Socket_scheme \<Rightarrow> world \<Rightarrow> (error + unit) \<times> 'a Socket_scheme \<times> world" where
  "SetNonBlocking k s w =
     (let s' = s\<lparr>mIsNonBlocking := True\<rparr>;
          (fl, w1) = GetStatusFlags k s' w
      in case fl of
           Inl e \<Rightarrow> (Inl e, s', w1)
         | Inr flags \<Rightarrow>
             (let (r, w2) = SetStatusFlags k s' (flags OR O_NONBLOCK) w1 in (r, s', w2)))"

definition SetBlocking ::
  "os \<Rightarrow> 'a Socket_scheme \<Rightarrow> world \<Rightarrow> (error + unit) \<times> 'a Socket_scheme \<times> world" where
  "SetBlocking k s w =
     (let s' = s\<lparr>mIsNonBlocking := False\<rparr>;
          (fl, w1) = GetStatusFlags k s' w
      in case fl of
           Inl e \<Rightarrow> (Inl e, s', w1)
         | Inr flags \<Rightarrow>
             (let (r, w2) = SetStatusFlags k s' (flags AND NOT O_NONBLOCK) w1 in (r, s', w2)))"

text \<open>
  The two constructors. A failure thrown from the constructor's body leaves the
  descriptor open: the destructor of an object whose construction did not finish
  does not run.
\<close>

definition Socket_open :: "os \<Rightarrow> int32 \<Rightarrow> int32 \<Rightarrow> int32 \<Rightarrow> world \<Rightarrow> (error + Socket) \<times> world" where
  "Socket_open k domain type protocol w =
     (let (r, w1) = SysCall k (SYS_socket domain type protocol) w
      in case Unwrap r of
           Inl e \<Rightarrow> (Inl e, w1)
         | Inr descriptor \<Rightarrow>
             (let (x, s, w2) = SetNonBlocking k (Socket_new descriptor) w1
              in case x of Inl e \<Rightarrow> (Inl e, w2) | Inr _ \<Rightarrow> (Inr s, w2)))"

definition Socket_from :: "os \<Rightarrow> Descriptor \<Rightarrow> world \<Rightarrow> (error + Socket) \<times> world" where
  "Socket_from k descriptor w =
     (if descriptor = sInvalidSocket then (Inl (InvalidArgument ''invalid socket descriptor''), w)
      else let (x, s, w1) = SetNonBlocking k (Socket_new descriptor) w
           in case x of Inl e \<Rightarrow> (Inl e, w1) | Inr _ \<Rightarrow> (Inr s, w1))"

text \<open>The destructor: the result of \<^verbatim>\<open>close\<close> is discarded.\<close>

definition Socket_destroy :: "os \<Rightarrow> 'a Socket_scheme \<Rightarrow> world \<Rightarrow> world" where
  "Socket_destroy k s w =
     (if mDescriptor s \<noteq> sInvalidSocket then snd (SysCall k (SYS_close (mDescriptor s)) w) else w)"

text \<open>
  The move constructor initialises \<^verbatim>\<open>mDescriptor\<close> only; the three flags of the new
  object take their default member initialisers. It returns the new object and the
  source as it is left.
\<close>

definition Socket_move :: "Socket \<Rightarrow> Socket \<times> Socket" where
  "Socket_move other = (Socket_new (mDescriptor other), other\<lparr>mDescriptor := sInvalidSocket\<rparr>)"

text \<open>Move assignment swaps the descriptors; it returns \<^verbatim>\<open>*this\<close> and \<^verbatim>\<open>rhs\<close>.\<close>

definition Socket_move_assign :: "Socket \<Rightarrow> Socket \<Rightarrow> Socket \<times> Socket" where
  "Socket_move_assign this rhs =
     (this\<lparr>mDescriptor := mDescriptor rhs\<rparr>, rhs\<lparr>mDescriptor := mDescriptor this\<rparr>)"

text \<open>
  \<^verbatim>\<open>GetSockOpt<int>\<close>: the out-value starts as the input value and holds what the kernel
  wrote when the call succeeded.
\<close>

definition GetSockOpt ::
  "os \<Rightarrow> 'a Socket_scheme \<Rightarrow> int32 \<Rightarrow> int32 \<Rightarrow> int32 \<Rightarrow> socklen_t \<Rightarrow> world
     \<Rightarrow> (error + int32 \<times> socklen_t) \<times> world" where
  "GetSockOpt k s level optname inputValue inputSize w =
     (let c = SYS_getsockopt (mDescriptor s) level optname;
          (r, w') = SysCall k c w;
          outValue = (if ret (k w c) = - 1 then inputValue else out_int (k w c));
          outSize = inputSize
      in case Unwrap r of Inl e \<Rightarrow> (Inl e, w') | Inr _ \<Rightarrow> (Inr (outValue, outSize), w'))"

definition GetError :: "os \<Rightarrow> 'a Socket_scheme \<Rightarrow> world \<Rightarrow> (error + errc) \<times> world" where
  "GetError k s w =
     (let (r, w') = GetSockOpt k s SOL_SOCKET SO_ERROR 0 4 w
      in (case r of Inl e \<Rightarrow> Inl e | Inr p \<Rightarrow> Inr (fst p), w'))"

definition Update ::
  "os \<Rightarrow> 'a Socket_scheme \<Rightarrow> Result \<Rightarrow> world \<Rightarrow> (error + bool) \<times> 'a Socket_scheme \<times> world" where
  "Update k s res w =
     (if IsErrored res then
        (let (r, w') = GetError k s w
         in case r of Inl e \<Rightarrow> (Inl e, s, w') | Inr code \<Rightarrow> (Inl (SystemError code), s, w'))
      else if IsInvalid res \<or> IsClosed res then (Inr False, s, w)
      else let s1 = (if IsReadable res then s\<lparr>mIsReadable := True\<rparr> else s);
               s2 = (if IsWritable res then s1\<lparr>mIsWritable := True\<rparr> else s1)
           in (Inr True, s2, w))"

section \<open>LocalAddress\<close>

record LocalAddress =
  mSize :: socklen_t
  mAddress :: sockaddr_un

definition sFamily :: short where "sFamily = AF_UNIX"
definition sMaxSize :: socklen_t where "sMaxSize = word_of_nat sizeof_sockaddr_un"
definition sPathOffset :: socklen_t where "sPathOffset = sMaxSize - word_of_nat sizeof_sun_path"

definition sockaddr_un_zero :: sockaddr_un where
  "sockaddr_un_zero = \<lparr>sun_family = 0, sun_path = replicate sizeof_sun_path NUL\<rparr>"

definition LocalAddress_empty :: LocalAddress where
  "LocalAddress_empty = \<lparr>mSize = sMaxSize, mAddress = sockaddr_un_zero\<rparr>"

text \<open>
  \<^verbatim>\<open>strncpy(dest, src, n)\<close> writes exactly \<open>n\<close> bytes: the bytes of \<open>src\<close> up to its first
  NUL (it reads at most \<open>n\<close> of them), then NULs.
\<close>

definition strncpy :: "char list \<Rightarrow> char list \<Rightarrow> nat \<Rightarrow> char list" where
  "strncpy dest src n =
     (let copied = takeWhile (\<lambda>c. c \<noteq> NUL) (take n src)
      in copied @ replicate (n - length copied) NUL @ drop n dest)"

text \<open>
  The initialiser of \<^verbatim>\<open>mSize\<close> in the constructor from a path:
  \<^verbatim>\<open>sPathOffset + path.size() + 1\<close>, computed in \<^verbatim>\<open>size_t\<close> and narrowed to the 32 bits of
  \<^verbatim>\<open>socklen_t\<close>.
\<close>

definition mSize_init :: "string \<Rightarrow> socklen_t" where
  "mSize_init path = word_of_nat (unat sPathOffset + length path + 1)"

text \<open>
  The constructor from a path. \<^verbatim>\<open>mSize\<close> is initialised first; the two checks follow.
  \<^verbatim>\<open>strncpy\<close> then writes \<^verbatim>\<open>path.size()\<close> bytes into \<^verbatim>\<open>sun_path\<close> and the terminator goes
  to index \<^verbatim>\<open>path.size()\<close>: both stay inside the array exactly when the path is shorter
  than it.
\<close>

definition LocalAddress_path :: "string \<Rightarrow> error + LocalAddress" where
  "LocalAddress_path path =
     (let size0 = mSize_init path
      in if path = [] then Inl (InvalidArgument ''path empty'')
         else if size0 > sMaxSize then Inl (LengthError ''path too long'')
         else if sizeof_sun_path \<le> length path then Inl UndefinedBehaviour
         else Inr \<lparr>mSize = size0,
                   mAddress = \<lparr>sun_family = sFamily,
                                sun_path = (strncpy (sun_path sockaddr_un_zero) path (length path))
                                             [length path := NUL]\<rparr>\<rparr>)"

definition GetSizePtr :: "LocalAddress \<Rightarrow> LocalAddress" where
  "GetSizePtr a = a\<lparr>mSize := sMaxSize\<rparr>"

definition LocalAddress_GetSize :: "LocalAddress \<Rightarrow> socklen_t" where
  "LocalAddress_GetSize a = mSize a"

text \<open>
  \<^verbatim>\<open>GetPath\<close> returns a \<^verbatim>\<open>const char*\<close> into \<^verbatim>\<open>sun_path\<close>: the string it denotes ends before
  the first NUL of the array (an address built by either constructor has one).
\<close>

definition GetPath :: "LocalAddress \<Rightarrow> string" where
  "GetPath a = takeWhile (\<lambda>c. c \<noteq> NUL) (sun_path (mAddress a))"

definition IsValid :: "LocalAddress \<Rightarrow> bool" where
  "IsValid a = (sun_family (mAddress a) = sFamily)"

section \<open>LocalSocket, LocalConnectorSocket, LocalAcceptorSocket\<close>

text \<open>
  \<^verbatim>\<open>LocalSocket\<close> derives from \<^verbatim>\<open>Socket\<close> and adds the address (the member \<^verbatim>\<open>mAddress\<close>,
  here \<open>mLocalAddress\<close>); the connector and the acceptor add no member.
\<close>

record LocalSocket = Socket +
  mLocalAddress :: LocalAddress

type_synonym LocalConnectorSocket = LocalSocket
type_synonym LocalAcceptorSocket = LocalSocket

definition sDomain :: int32 where "sDomain = ucast AF_UNIX"
definition sType :: int32 where "sType = SOCK_SEQPACKET"
definition sProtocol :: int32 where "sProtocol = 0"

definition LocalSocket_of :: "Socket \<Rightarrow> LocalAddress \<Rightarrow> LocalSocket" where
  "LocalSocket_of s a =
     \<lparr>mDescriptor = mDescriptor s, mIsReadable = mIsReadable s, mIsWritable = mIsWritable s,
      mIsNonBlocking = mIsNonBlocking s, mLocalAddress = a\<rparr>"

text \<open>
  \<^verbatim>\<open>LocalSocket(std::string_view path)\<close>: the base is constructed first; when the
  address then throws, the base is destroyed. (Past an outcome \<open>UndefinedBehaviour\<close> the
  world that is returned means nothing.)
\<close>

definition LocalSocket_path :: "os \<Rightarrow> string \<Rightarrow> world \<Rightarrow> (error + LocalSocket) \<times> world" where
  "LocalSocket_path k path w =
     (let (r, w1) = Socket_open k sDomain sType sProtocol w
      in case r of
           Inl e \<Rightarrow> (Inl e, w1)
         | Inr s \<Rightarrow>
             (case LocalAddress_path path of
                Inl e \<Rightarrow> (Inl e, Socket_destroy k s w1)
              | Inr a \<Rightarrow> (Inr (LocalSocket_of s a), w1)))"

text \<open>\<^verbatim>\<open>LocalSocket(Descriptor descriptor, LocalAddress address)\<close>.\<close>

definition LocalSocket_from ::
  "os \<Rightarrow> Descriptor \<Rightarrow> LocalAddress \<Rightarrow> world \<Rightarrow> (error + LocalSocket) \<times> world" where
  "LocalSocket_from k descriptor address w =
     (let (r, w1) = Socket_from k descriptor w
      in case r of
           Inl e \<Rightarrow> (Inl e, w1)
         | Inr s \<Rightarrow>
             if \<not> IsValid address
             then (Inl (InvalidArgument ''invalid local socket address''), Socket_destroy k s w1)
             else (Inr (LocalSocket_of s address), w1))"

text \<open>The implicit move constructor: the base is moved, the address copied.\<close>

definition LocalSocket_move :: "LocalSocket \<Rightarrow> LocalSocket \<times> LocalSocket" where
  "LocalSocket_move other =
     (LocalSocket_of (Socket_new (mDescriptor other)) (mLocalAddress other),
      other\<lparr>mDescriptor := sInvalidSocket\<rparr>)"

definition Connect :: "os \<Rightarrow> LocalSocket \<Rightarrow> world \<Rightarrow> (error + unit) \<times> world" where
  "Connect k s w =
     (let (r, w') = SysCall k (SYS_connect (GetDescriptor s) (mAddress (mLocalAddress s))
                                (LocalAddress_GetSize (mLocalAddress s))) w
      in (case Unwrap r of Inl e \<Rightarrow> Inl e | Inr _ \<Rightarrow> Inr (), w'))"

text \<open>
  \<^verbatim>\<open>LocalConnectorSocket(std::string_view path)\<close>: \<^verbatim>\<open>Connect()\<close> runs in the constructor's
  body, so a failure it throws destroys the finished base.
\<close>

definition LocalConnectorSocket_path ::
  "os \<Rightarrow> string \<Rightarrow> world \<Rightarrow> (error + LocalConnectorSocket) \<times> world" where
  "LocalConnectorSocket_path k path w =
     (let (r, w1) = LocalSocket_path k path w
      in case r of
           Inl e \<Rightarrow> (Inl e, w1)
         | Inr s \<Rightarrow>
             (let (c, w2) = Connect k s w1
              in case c of Inl e \<Rightarrow> (Inl e, Socket_destroy k s w2) | Inr _ \<Rightarrow> (Inr s, w2)))"

definition LocalConnectorSocket_from ::
  "os \<Rightarrow> Descriptor \<Rightarrow> LocalAddress \<Rightarrow> world \<Rightarrow> (error + LocalConnectorSocket) \<times> world" where
  "LocalConnectorSocket_from k descriptor address w = LocalSocket_from k descriptor address w"

text \<open>
  \<^verbatim>\<open>TrySend\<close> and \<^verbatim>\<open>TryRecv\<close> return the outcome, the socket as the call leaves it and the
  world. \<open>Inr None\<close> is \<^verbatim>\<open>std::nullopt\<close>.
\<close>

definition TrySend ::
  "os \<Rightarrow> LocalConnectorSocket \<Rightarrow> int32 \<Rightarrow> world
     \<Rightarrow> (error + int32 option) \<times> LocalConnectorSocket \<times> world" where
  "TrySend k s bytesToSend w =
     (let (writable, s') = GetAndResetIsWritable s
      in if \<not> writable then (Inr None, s', w)
         else let flags = 0;
                  (bytesSent, w') = SysCallBlocking k (SYS_send (GetDescriptor s') bytesToSend flags) w
              in case bytesSent of
                   Some r \<Rightarrow> (case Unwrap r of Inl e \<Rightarrow> (Inl e, s', w') | Inr n \<Rightarrow> (Inr (Some n), s', w'))
                 | None \<Rightarrow> (Inr None, s', w'))"

definition TryRecv ::
  "os \<Rightarrow> LocalConnectorSocket \<Rightarrow> int32 \<Rightarrow> world
     \<Rightarrow> (error + int32 option) \<times> LocalConnectorSocket \<times> world" where
  "TryRecv k s bufSize w =
     (let (readable, s') = GetAndResetIsReadable s
      in if \<not> readable then (Inr None, s', w)
         else let flags = 0;
                  (bytesRecv, w') = SysCallBlocking k (SYS_recv (GetDescriptor s') bufSize flags) w
              in case bytesRecv of
                   Some r \<Rightarrow> (case Unwrap r of Inl e \<Rightarrow> (Inl e, s', w') | Inr n \<Rightarrow> (Inr (Some n), s', w'))
                 | None \<Rightarrow> (Inr None, s', w'))"

text \<open>
  \<^verbatim>\<open>Accept\<close>: the connector is built as a temporary from the descriptor and the address
  the kernel filled in, moved into the returned optional, and the temporary destroyed.
\<close>

definition Accept ::
  "os \<Rightarrow> LocalAcceptorSocket \<Rightarrow> world
     \<Rightarrow> (error + LocalConnectorSocket option) \<times> LocalAcceptorSocket \<times> world" where
  "Accept k s w =
     (let (readable, s') = GetAndResetIsReadable s
      in if \<not> readable then (Inr None, s', w)
         else let address = GetSizePtr LocalAddress_empty;
                  c = SYS_accept (GetDescriptor s');
                  (desc, w1) = SysCallBlocking k c w
              in case desc of
                   None \<Rightarrow> (Inr None, s', w1)
                 | Some r \<Rightarrow>
                     (case Unwrap r of
                        Inl e \<Rightarrow> (Inl e, s', w1)
                      | Inr d \<Rightarrow>
                          (let address' = address\<lparr>mSize := out_len (k w c), mAddress := out_addr (k w c)\<rparr>;
                               (t, w2) = LocalConnectorSocket_from k d address' w1
                           in case t of
                                Inl e \<Rightarrow> (Inl e, s', w2)
                              | Inr tmp \<Rightarrow>
                                  (let (conn, tmp') = LocalSocket_move tmp
                                   in (Inr (Some conn), s', Socket_destroy k tmp' w2)))))"

section \<open>Sequences of operations\<close>

text \<open>
  A caller's attempts on one socket, run in order. An attempt that throws leaves the
  socket as the throwing call left it, and the caller may go on.
\<close>

datatype attempt = DoUpdate Result | DoTrySend int32 | DoTryRecv int32 | DoAccept

fun run_attempt :: "os \<Rightarrow> attempt \<Rightarrow> LocalSocket \<times> world \<Rightarrow> LocalSocket \<times> world" where
  "run_attempt k (DoUpdate res) (s, w) = snd (Update k s res w)"
| "run_attempt k (DoTrySend n) (s, w) = snd (TrySend k s n w)"
| "run_attempt k (DoTryRecv n) (s, w) = snd (TryRecv k s n w)"
| "run_attempt k DoAccept (s, w) = snd (Accept k s w)"

fun run_attempts :: "os \<Rightarrow> attempt list \<Rightarrow> LocalSocket \<times> world \<Rightarrow> LocalSocket \<times> world" where
  "run_attempts k [] sw = sw"
| "run_attempts k (a # as) sw = run_attempts k as (run_attempt k a sw)"

fun reads_readable :: "attempt \<Rightarrow> bool" where
  "reads_readable (DoTryRecv n) = True"
| "reads_readable DoAccept = True"
| "reads_readable a = False"

fun reads_writable :: "attempt \<Rightarrow> bool" where
  "reads_writable (DoTrySend n) = True"
| "reads_writable a = False"

text \<open>
  Objects of class \<^verbatim>\<open>Socket\<close> and their lifetimes. The store lists the objects by
  number; \<open>None\<close> is an object whose lifetime is over. Move construction makes a new
  object, numbered by the length of the store; move assignment and destruction act on
  living objects, and a program that names another has no defined behaviour (\<open>None\<close>).
\<close>

datatype lifetime_op = MoveConstruct nat | MoveAssign nat nat | Destroy nat

type_synonym store = "Socket option list"

fun run_op :: "os \<Rightarrow> lifetime_op \<Rightarrow> store \<times> world \<Rightarrow> (store \<times> world) option" where
  "run_op k (MoveConstruct src) (st, w) =
     (if src < length st then
        (case st ! src of
           None \<Rightarrow> None
         | Some other \<Rightarrow>
             (let (new, other') = Socket_move other
              in Some (st[src := Some other'] @ [Some new], w)))
      else None)"
| "run_op k (MoveAssign dst src) (st, w) =
     (if dst < length st \<and> src < length st then
        (case (st ! dst, st ! src) of
           (Some this, Some rhs) \<Rightarrow>
             (if dst = src then Some (st, w)
              else let (this', rhs') = Socket_move_assign this rhs
                   in Some (st[dst := Some this', src := Some rhs'], w))
         | _ \<Rightarrow> None)
      else None)"
| "run_op k (Destroy x) (st, w) =
     (if x < length st then
        (case st ! x of
           None \<Rightarrow> None
         | Some s \<Rightarrow> Some (st[x := None], Socket_destroy k s w))
      else None)"

fun run_ops :: "os \<Rightarrow> lifetime_op list \<Rightarrow> store \<times> world \<Rightarrow> (store \<times> world) option" where
  "run_ops k [] sw = Some sw"
| "run_ops k (x # xs) sw = (case run_op k x sw of None \<Rightarrow> None | Some sw' \<Rightarrow> run_ops k xs sw')"

text \<open>How many living objects hold descriptor \<open>d\<close>, and how often it was closed.\<close>

definition holds :: "Descriptor \<Rightarrow> Socket option \<Rightarrow> nat" where
  "holds d x = (case x of None \<Rightarrow> 0 | Some s \<Rightarrow> if mDescriptor s = d then 1 else 0)"

definition holders :: "Descriptor \<Rightarrow> store \<Rightarrow> nat" where
  "holders d st = sum_list (map (holds d) st)"

definition closes :: "Descriptor \<Rightarrow> world \<Rightarrow> nat" where
  "closes d w = count_list w (SYS_close d)"

section \<open>Kernels for the examples\<close>

definition reply_ok :: "int32 \<Rightarrow> os_reply" where
  "reply_ok val = \<lparr>ret = val, errno = 0, out_int = 0, out_addr = sockaddr_un_zero, out_len = 0\<rparr>"

definition reply_fail :: "errc \<Rightarrow> os_reply" where
  "reply_fail code = \<lparr>ret = - 1, errno = code, out_int = 0, out_addr = sockaddr_un_zero, out_len = 0\<rparr>"

text \<open>Every call returns 0.\<close>

definition kernel_ok :: os where
  "kernel_ok w c = reply_ok 0"

text \<open>Every call fails with EAGAIN.\<close>

definition kernel_again :: os where
  "kernel_again w c = reply_fail resource_unavailable_try_again"

text \<open>\<^verbatim>\<open>socket\<close> returns descriptor 3, \<^verbatim>\<open>connect\<close> fails with EAGAIN, every other call returns 0.\<close>

definition kernel_connect_again :: os where
  "kernel_connect_again w c =
     (case c of
        SYS_socket _ _ _ \<Rightarrow> reply_ok 3
      | SYS_connect _ _ _ \<Rightarrow> reply_fail resource_unavailable_try_again
      | _ \<Rightarrow> reply_ok 0)"

text \<open>\<^verbatim>\<open>getsockopt\<close> succeeds and reports ECONNREFUSED as the pending error.\<close>

definition kernel_so_error :: os where
  "kernel_so_error w c = (reply_ok 0)\<lparr>out_int := connection_refused\<rparr>"

definition socket_3 :: LocalSocket where
  "socket_3 = \<lparr>mDescriptor = 3, mIsReadable = False, mIsWritable = False, mIsNonBlocking = True,
               mLocalAddress = LocalAddress_empty\<rparr>"

text \<open>
  \<^verbatim>\<open>accept\<close> returns descriptor 4 with the address of an unnamed peer, \<^verbatim>\<open>send\<close> takes all
  the bytes, \<^verbatim>\<open>recv\<close> fails with EAGAIN, every other call returns 0.
\<close>

definition kernel_accept_4 :: os where
  "kernel_accept_4 w c =
     (case c of
        SYS_accept _ \<Rightarrow> (reply_ok 4)\<lparr>out_addr := sockaddr_un_zero\<lparr>sun_family := AF_UNIX\<rparr>, out_len := 2\<rparr>
      | SYS_send _ n _ \<Rightarrow> reply_ok n
      | SYS_recv _ _ _ \<Rightarrow> reply_fail resource_unavailable_try_again
      | _ \<Rightarrow> reply_ok 0)"

text \<open>
  An acceptor on descriptor 3 with a connection reported, the connector \<open>Accept\<close> then
  returns, and the system calls issued on the way.
\<close>

definition acceptor_3 :: LocalAcceptorSocket where
  "acceptor_3 = socket_3\<lparr>mIsReadable := True\<rparr>"

definition connector_4 :: LocalConnectorSocket where
  "connector_4 = \<lparr>mDescriptor = 4, mIsReadable = False, mIsWritable = False, mIsNonBlocking = False,
                   mLocalAddress = \<lparr>mSize = 2, mAddress = sockaddr_un_zero\<lparr>sun_family := AF_UNIX\<rparr>\<rparr>\<rparr>"

definition world_accepted :: world where
  "world_accepted = [SYS_accept 3, SYS_fcntl 4 F_GETFL 0, SYS_fcntl 4 F_SETFL O_NONBLOCK]"

text \<open>The address the constructor builds from the path \<^verbatim>\<open>"/tmp/x.sock"\<close>.\<close>

definition address_x :: LocalAddress where
  "address_x = \<lparr>mSize = 14,
                 mAddress = \<lparr>sun_family = AF_UNIX, sun_path = ''/tmp/x.sock'' @ replicate 97 NUL\<rparr>\<rparr>"

text \<open>Two sockets owning descriptors 3 and 4, and a program over them.\<close>

definition store_34 :: store where
  "store_34 = [Some (Socket_new 3), Some (Socket_new 4)]"

definition script_34 :: "lifetime_op list" where
  "script_34 = [MoveAssign 0 1, MoveConstruct 0, Destroy 0, Destroy 1, Destroy 2]"

text \<open>A poller watching an acceptor and two connectors, and one with \<open>2^31\<close> entries.\<close>

definition poller_345 :: Poller where
  "poller_345 = AddConnector (AddConnector (AddAcceptor \<lparr>mPollList = []\<rparr> 3) 4) 5"

definition entry_3 :: pollfd where
  "entry_3 = \<lparr>fd = 3, events = Readable, revents = 0\<rparr>"

definition poller_huge :: Poller where
  "poller_huge = \<lparr>mPollList = replicate (2 ^ 31) entry_3\<rparr>"

section \<open>The result translation layer\<close>

text \<open>
  Claim C5. Whatever the kernel answers to the call wrapped by \<open>SysCallBlocking\<close>: a
  return value other than \<open>-1\<close> gives the success arm carrying that value (not an error;
  unwrapping yields the value); \<open>-1\<close> with EWOULDBLOCK or EAGAIN gives the third outcome,
  the empty optional, which is neither arm; \<open>-1\<close> with any other code gives the arm
  carrying that code, which is an error and unwraps to a \<open>SystemError\<close> of that code
  (an error code is not 0, the value \<^verbatim>\<open>std::errc()\<close> that \<open>SysReturn\<close> reads as "not an
  error"). The call is issued exactly once.
\<close>

theorem SysCallBlocking_outcomes:
  assumes "k w c = r"
  shows "(ret r \<noteq> - 1 \<longrightarrow>
            fst (SysCallBlocking k c w) = Some (SysReturn_int (ret r))
          \<and> \<not> IsError (SysReturn_int (ret r))
          \<and> Unwrap (SysReturn_int (ret r)) = Inr (ret r))
       \<and> (ret r = - 1 \<and> (errno r = operation_would_block \<or> errno r = resource_unavailable_try_again) \<longrightarrow>
            fst (SysCallBlocking k c w) = None)
       \<and> (ret r = - 1 \<and> errno r \<noteq> operation_would_block \<and> errno r \<noteq> resource_unavailable_try_again \<longrightarrow>
            fst (SysCallBlocking k c w) = Some (SysReturn_errc (errno r))
          \<and> GetCode (SysReturn_errc (errno r)) = errno r
          \<and> (errno r \<noteq> 0 \<longrightarrow> IsError (SysReturn_errc (errno r))
                \<and> Unwrap (SysReturn_errc (errno r)) = Inl (SystemError (errno r))))
       \<and> snd (SysCallBlocking k c w) = w @ [c]"
  using assms
  by (simp add: SysCallBlocking_def invoke_def Let_def SysReturn_int_def SysReturn_errc_def
      IsError_def Unwrap_def GetCode_def sNotAnError_def)

theorem SysCallBlocking_outcomes_witness:
  "fst (SysCallBlocking kernel_ok (SYS_send 3 5 0) []) = Some (SysReturn_int 0)
   \<and> Unwrap (SysReturn_int 0) = Inr 0
   \<and> fst (SysCallBlocking kernel_again (SYS_send 3 5 0) []) = None
   \<and> fst (SysCallBlocking (\<lambda>w c. reply_fail connection_refused) (SYS_send 3 5 0) [])
       = Some (SysReturn_errc connection_refused)
   \<and> Unwrap (SysReturn_errc connection_refused) = Inl (SystemError connection_refused)"
  using SysCallBlocking_outcomes [of kernel_ok "[]" "SYS_send 3 5 0" "reply_ok 0"]
        SysCallBlocking_outcomes [of kernel_again "[]" "SYS_send 3 5 0"
          "reply_fail resource_unavailable_try_again"]
        SysCallBlocking_outcomes [of "\<lambda>w c. reply_fail connection_refused" "[]" "SYS_send 3 5 0"
          "reply_fail connection_refused"]
  by (simp add: kernel_ok_def kernel_again_def reply_ok_def reply_fail_def
      resource_unavailable_try_again_def operation_would_block_def connection_refused_def)

section \<open>Cached readiness\<close>

text \<open>
  What the two gates compute from the object's own flags: they clear the cached flag
  and change nothing else; with \<^verbatim>\<open>mIsNonBlocking\<close> set they return the flag as it was
  cached, so that two calls in a row on a set flag return true and then false; with it
  clear they return true whatever the cache holds.
\<close>

lemma GetAndReset_gate:
  "snd (GetAndResetIsReadable s) = s\<lparr>mIsReadable := False\<rparr>
   \<and> snd (GetAndResetIsWritable s) = s\<lparr>mIsWritable := False\<rparr>
   \<and> (mIsNonBlocking s \<longrightarrow> fst (GetAndResetIsReadable s) = mIsReadable s
                          \<and> fst (GetAndResetIsWritable s) = mIsWritable s)
   \<and> (\<not> mIsNonBlocking s \<longrightarrow> fst (GetAndResetIsReadable s) \<and> fst (GetAndResetIsWritable s))
   \<and> (mIsNonBlocking s \<and> mIsReadable s \<longrightarrow>
        fst (GetAndResetIsReadable s) \<and> \<not> fst (GetAndResetIsReadable (snd (GetAndResetIsReadable s))))
   \<and> (mIsNonBlocking s \<and> mIsWritable s \<longrightarrow>
        fst (GetAndResetIsWritable s) \<and> \<not> fst (GetAndResetIsWritable (snd (GetAndResetIsWritable s))))"
  by (simp add: GetAndResetIsReadable_def GetAndResetIsWritable_def Let_def)

text \<open>
  With \<^verbatim>\<open>mIsNonBlocking\<close> set and the cached flag false, \<open>TrySend\<close>, \<open>TryRecv\<close> and \<open>Accept\<close>
  return the empty optional and issue no system call.
\<close>

lemma gate_closed_no_syscall:
  "(mIsNonBlocking s \<and> \<not> mIsWritable s \<longrightarrow> TrySend k s n w = (Inr None, s, w))
   \<and> (mIsNonBlocking s \<and> \<not> mIsReadable s \<longrightarrow>
        TryRecv k s n w = (Inr None, s, w) \<and> Accept k s w = (Inr None, s, w))"
  by (simp add: TrySend_def TryRecv_def Accept_def GetAndResetIsReadable_def
      GetAndResetIsWritable_def Let_def)

text \<open>
  \<^verbatim>\<open>mIsNonBlocking\<close> is meant to follow the mode of the descriptor: \<open>SetNonBlocking\<close> and
  \<open>SetBlocking\<close> change the two together, and every constructor from a descriptor calls
  \<open>SetNonBlocking\<close>. The move constructor breaks the tie: it takes the descriptor, which
  stays \<^verbatim>\<open>O_NONBLOCK\<close>, and leaves the three flags of the new object at their defaults.
  Every connector that \<open>Accept\<close> returns is such an object.
\<close>

lemma Accept_connector_flags:
  assumes "fst (Accept k s w) = Inr (Some conn)"
  shows "\<not> mIsNonBlocking conn \<and> \<not> mIsReadable conn \<and> \<not> mIsWritable conn"
  using assms
  by (auto simp add: Accept_def Let_def LocalSocket_move_def LocalSocket_of_def Socket_new_def
      split: prod.splits option.splits sum.splits if_splits)

lemma Accept_connector_4:
  "Accept kernel_accept_4 acceptor_3 [] = (Inr (Some connector_4), socket_3, world_accepted)"
  by (simp add: Accept_def GetAndResetIsReadable_def SysCallBlocking_def invoke_def Let_def
      kernel_accept_4_def reply_ok_def acceptor_3_def socket_3_def GetDescriptor_def
      Unwrap_def IsError_def SysReturn_int_def sNotAnError_def
      LocalConnectorSocket_from_def LocalSocket_from_def Socket_from_def SetNonBlocking_def
      GetStatusFlags_def SetStatusFlags_def SysCall_def sInvalidSocket_def Socket_new_def
      IsValid_def sFamily_def GetSizePtr_def LocalAddress_empty_def LocalSocket_of_def
      LocalSocket_move_def Socket_destroy_def connector_4_def world_accepted_def)

text \<open>
  Claim C4. The claim fails on the connector that \<open>Accept\<close> returns. Its descriptor was
  put into non-blocking mode (the \<^verbatim>\<open>fcntl\<close> with \<^verbatim>\<open>O_NONBLOCK\<close> is in the world) and
  \<open>SetBlocking\<close> was never called; neither readiness flag is cached; and still \<open>TryRecv\<close>
  issues \<^verbatim>\<open>recv\<close> and \<open>TrySend\<close> issues \<^verbatim>\<open>send\<close>.
\<close>

theorem accepted_connector_not_gated:
  "Accept kernel_accept_4 acceptor_3 [] = (Inr (Some connector_4), socket_3, world_accepted)
   \<and> world_accepted = [SYS_accept 3, SYS_fcntl 4 F_GETFL 0, SYS_fcntl 4 F_SETFL O_NONBLOCK]
   \<and> \<not> mIsReadable connector_4 \<and> \<not> mIsWritable connector_4
   \<and> TryRecv kernel_accept_4 connector_4 5 world_accepted
        = (Inr None, connector_4, world_accepted @ [SYS_recv 4 5 0])
   \<and> TrySend kernel_accept_4 connector_4 5 world_accepted
        = (Inr (Some 5), connector_4, world_accepted @ [SYS_send 4 5 0])"
  by (simp add: Accept_connector_4)
     (simp add: TryRecv_def TrySend_def GetAndResetIsReadable_def GetAndResetIsWritable_def
      SysCallBlocking_def invoke_def Let_def kernel_accept_4_def reply_ok_def reply_fail_def
      GetDescriptor_def Unwrap_def IsError_def SysReturn_int_def sNotAnError_def connector_4_def
      world_accepted_def resource_unavailable_try_again_def operation_would_block_def)

text \<open>
  Claim C7. The claim fails on the same connector, for the same cause. After \<open>Update\<close>
  with a readable event has set its cached flag, \<open>GetAndResetIsReadable\<close> returns true,
  and with no \<open>Update\<close> in between returns true again.
\<close>

theorem accepted_connector_readable_twice:
  "fst (Accept kernel_accept_4 acceptor_3 []) = Inr (Some connector_4)
   \<and> Update kernel_accept_4 connector_4 (Result POLLIN) world_accepted
        = (Inr True, connector_4\<lparr>mIsReadable := True\<rparr>, world_accepted)
   \<and> GetAndResetIsReadable (connector_4\<lparr>mIsReadable := True\<rparr>) = (True, connector_4)
   \<and> GetAndResetIsReadable connector_4 = (True, connector_4)"
  by (simp add: Accept_connector_4)
     (simp add: Update_def GetAndResetIsReadable_def Let_def connector_4_def
      IsErrored_def IsInvalid_def IsClosed_def IsReadable_def IsWritable_def
      POLLERR_def POLLIN_def POLLOUT_def POLLHUP_def POLLNVAL_def)

text \<open>
  Claim C6. \<open>Update\<close> on an event whose errored bit is set, whatever its other bits,
  throws a \<open>SystemError\<close> at once: it queries the pending error with
  \<^verbatim>\<open>getsockopt(SOL_SOCKET, SO_ERROR)\<close>, and when that call succeeds the failure carries the
  code the kernel reported; the cached flags are untouched. Otherwise, when the invalid
  or the peer-closed bit is set, it returns false, throws nothing and changes neither
  the flags nor the world. Otherwise it ORs the event's readable and writable bits into
  the cached flags and returns true.
\<close>

theorem Update_cases:
  assumes "q = SYS_getsockopt (mDescriptor s) SOL_SOCKET SO_ERROR"
  shows "(IsErrored res \<longrightarrow>
            (\<exists>code. fst (Update k s res w) = Inl (SystemError code))
          \<and> (ret (k w q) \<noteq> - 1 \<longrightarrow> fst (Update k s res w) = Inl (SystemError (out_int (k w q))))
          \<and> snd (Update k s res w) = (s, w @ [q]))
       \<and> (\<not> IsErrored res \<and> (IsInvalid res \<or> IsClosed res) \<longrightarrow>
            Update k s res w = (Inr False, s, w))
       \<and> (\<not> IsErrored res \<and> \<not> IsInvalid res \<and> \<not> IsClosed res \<longrightarrow>
            Update k s res w =
              (Inr True,
               s\<lparr>mIsReadable := mIsReadable s \<or> IsReadable res,
                 mIsWritable := mIsWritable s \<or> IsWritable res\<rparr>, w))"
  using assms
  by (auto simp add: Update_def GetError_def GetSockOpt_def SysCall_def invoke_def Let_def
      Unwrap_def IsError_def SysReturn_int_def SysReturn_errc_def sNotAnError_def
      split: sum.splits prod.splits if_splits)

theorem Update_cases_witness:
  "IsErrored (Result (POLLERR OR POLLIN))
   \<and> fst (Update kernel_so_error socket_3 (Result (POLLERR OR POLLIN)) [])
       = Inl (SystemError connection_refused)
   \<and> \<not> IsErrored (Result POLLHUP) \<and> IsClosed (Result POLLHUP)
   \<and> Update kernel_ok socket_3 (Result POLLHUP) [] = (Inr False, socket_3, [])
   \<and> \<not> IsErrored (Result (POLLIN OR POLLOUT)) \<and> \<not> IsInvalid (Result (POLLIN OR POLLOUT))
   \<and> \<not> IsClosed (Result (POLLIN OR POLLOUT))
   \<and> Update kernel_ok socket_3 (Result (POLLIN OR POLLOUT)) []
       = (Inr True, socket_3\<lparr>mIsReadable := True, mIsWritable := True\<rparr>, [])"
  using Update_cases [of "SYS_getsockopt 3 SOL_SOCKET SO_ERROR" socket_3
          "Result (POLLERR OR POLLIN)" kernel_so_error "[]"]
        Update_cases [of "SYS_getsockopt 3 SOL_SOCKET SO_ERROR" socket_3
          "Result POLLHUP" kernel_ok "[]"]
        Update_cases [of "SYS_getsockopt 3 SOL_SOCKET SO_ERROR" socket_3
          "Result (POLLIN OR POLLOUT)" kernel_ok "[]"]
  by (simp add: socket_3_def kernel_so_error_def kernel_ok_def reply_ok_def
      IsErrored_def IsClosed_def IsInvalid_def IsReadable_def IsWritable_def
      POLLERR_def POLLIN_def POLLOUT_def POLLHUP_def POLLNVAL_def)

text \<open>What each operation does to the cached flags.\<close>

lemma Update_keeps_readable:
  "mIsReadable s \<Longrightarrow> mIsReadable (fst (snd (Update k s res w)))"
  by (simp add: Update_def Let_def split: prod.splits sum.splits)

lemma Update_keeps_writable:
  "mIsWritable s \<Longrightarrow> mIsWritable (fst (snd (Update k s res w)))"
  by (simp add: Update_def Let_def split: prod.splits sum.splits)

lemma TrySend_socket: "fst (snd (TrySend k s n w)) = s\<lparr>mIsWritable := False\<rparr>"
  by (simp add: TrySend_def GetAndResetIsWritable_def Let_def split: prod.splits option.splits sum.splits)

lemma TryRecv_socket: "fst (snd (TryRecv k s n w)) = s\<lparr>mIsReadable := False\<rparr>"
  by (simp add: TryRecv_def GetAndResetIsReadable_def Let_def split: prod.splits option.splits sum.splits)

lemma Accept_socket: "fst (snd (Accept k s w)) = s\<lparr>mIsReadable := False\<rparr>"
  by (simp add: Accept_def GetAndResetIsReadable_def Let_def split: prod.splits option.splits sum.splits)

lemma run_attempt_keeps_readable:
  "mIsReadable (fst sw) \<Longrightarrow> \<not> reads_readable a \<Longrightarrow> mIsReadable (fst (run_attempt k a sw))"
  by (cases a; cases sw) (simp_all add: Update_keeps_readable TrySend_socket)

lemma run_attempt_keeps_writable:
  "mIsWritable (fst sw) \<Longrightarrow> \<not> reads_writable a \<Longrightarrow> mIsWritable (fst (run_attempt k a sw))"
  by (cases a; cases sw) (simp_all add: Update_keeps_writable TryRecv_socket Accept_socket)

lemma run_attempts_keep_readable:
  "mIsReadable (fst sw) \<Longrightarrow> \<forall>a\<in>set as. \<not> reads_readable a \<Longrightarrow>
     mIsReadable (fst (run_attempts k as sw))"
  by (induction as arbitrary: sw) (simp_all add: run_attempt_keeps_readable)

lemma run_attempts_keep_writable:
  "mIsWritable (fst sw) \<Longrightarrow> \<forall>a\<in>set as. \<not> reads_writable a \<Longrightarrow>
     mIsWritable (fst (run_attempts k as sw))"
  by (induction as arbitrary: sw) (simp_all add: run_attempt_keeps_writable)

lemma TrySend_world:
  "mIsWritable s \<Longrightarrow> snd (snd (TrySend k s n w)) = w @ [SYS_send (mDescriptor s) n 0]"
  by (simp add: TrySend_def GetAndResetIsWritable_def SysCallBlocking_def invoke_def GetDescriptor_def
      Let_def split: prod.splits option.splits sum.splits)

lemma TryRecv_world:
  "mIsReadable s \<Longrightarrow> snd (snd (TryRecv k s n w)) = w @ [SYS_recv (mDescriptor s) n 0]"
  by (simp add: TryRecv_def GetAndResetIsReadable_def SysCallBlocking_def invoke_def GetDescriptor_def
      Let_def split: prod.splits option.splits sum.splits)

text \<open>Every operation only adds to the list of system calls.\<close>

lemma SysCall_world: "snd (SysCall k c w) = w @ [c]"
  by (simp add: SysCall_def invoke_def Let_def)

lemma SysCallBlocking_world: "snd (SysCallBlocking k c w) = w @ [c]"
  by (simp add: SysCallBlocking_def invoke_def Let_def)

lemma SetNonBlocking_world: "\<exists>rest. snd (snd (SetNonBlocking k s w)) = w @ rest"
  by (auto simp add: SetNonBlocking_def GetStatusFlags_def SetStatusFlags_def SysCall_def invoke_def
      Let_def split: prod.splits sum.splits)

lemma SetNonBlocking_socket: "fst (snd (SetNonBlocking k s w)) = s\<lparr>mIsNonBlocking := True\<rparr>"
  by (simp add: SetNonBlocking_def Let_def split: prod.splits sum.splits)

lemma Socket_destroy_world: "\<exists>rest. Socket_destroy k s w = w @ rest"
  by (simp add: Socket_destroy_def SysCall_world)

lemma Socket_from_world: "\<exists>rest. snd (Socket_from k d w) = w @ rest"
  using SetNonBlocking_world [of k "Socket_new d" w]
  by (auto simp add: Socket_from_def Let_def split: prod.splits sum.splits)

lemma LocalSocket_from_world: "\<exists>rest. snd (LocalSocket_from k d a w) = w @ rest"
proof -
  obtain r1 where r1: "snd (Socket_from k d w) = w @ r1"
    using Socket_from_world by blast
  show ?thesis
  proof (cases "Socket_from k d w")
    case (Pair x w1)
    with r1 have w1: "w1 = w @ r1" by simp
    show ?thesis
    proof (cases x)
      case (Inl e)
      with Pair w1 show ?thesis by (simp add: LocalSocket_from_def)
    next
      case (Inr s)
      obtain r2 where "Socket_destroy k s w1 = w1 @ r2"
        using Socket_destroy_world by blast
      with Pair Inr w1 show ?thesis by (simp add: LocalSocket_from_def)
    qed
  qed
qed

lemma Accept_world:
  assumes "mIsReadable s \<or> \<not> mIsNonBlocking s"
  shows "\<exists>rest. snd (snd (Accept k s w)) = w @ SYS_accept (mDescriptor s) # rest"
proof -
  let ?s' = "s\<lparr>mIsReadable := False\<rparr>"
  let ?c = "SYS_accept (mDescriptor s)"
  let ?w1 = "w @ [?c]"
  have g: "GetAndResetIsReadable s = (True, ?s')"
    using assms by (auto simp add: GetAndResetIsReadable_def Let_def)
  obtain desc where d: "SysCallBlocking k ?c w = (desc, ?w1)"
    using SysCallBlocking_world [of k ?c w] by (cases "SysCallBlocking k ?c w") simp
  show ?thesis
  proof (cases desc)
    case None
    with g d show ?thesis by (simp add: Accept_def GetDescriptor_def Let_def)
  next
    case (Some r)
    show ?thesis
    proof (cases "Unwrap r")
      case (Inl e)
      with g d Some show ?thesis by (simp add: Accept_def GetDescriptor_def Let_def)
    next
      case (Inr fd')
      let ?a = "(GetSizePtr LocalAddress_empty)\<lparr>mSize := out_len (k w ?c), mAddress := out_addr (k w ?c)\<rparr>"
      obtain r2 where r2: "snd (LocalSocket_from k fd' ?a ?w1) = ?w1 @ r2"
        using LocalSocket_from_world by blast
      obtain t w2 where t: "LocalSocket_from k fd' ?a ?w1 = (t, w2)"
        by (cases "LocalSocket_from k fd' ?a ?w1")
      with r2 have w2: "w2 = ?w1 @ r2" by simp
      show ?thesis
      proof (cases t)
        case (Inl e)
        with g d Some Inr t w2 show ?thesis
          by (simp add: Accept_def GetDescriptor_def Let_def LocalConnectorSocket_from_def)
      next
        case (Inr tmp)
        obtain r3 where "Socket_destroy k (snd (LocalSocket_move tmp)) w2 = w2 @ r3"
          using Socket_destroy_world by blast
        with g d Some \<open>Unwrap r = Inr fd'\<close> t w2 Inr show ?thesis
          by (auto simp add: Accept_def GetDescriptor_def Let_def LocalConnectorSocket_from_def
              split: prod.splits)
      qed
    qed
  qed
qed

lemma TrySend_would_block:
  assumes "mIsWritable s \<or> \<not> mIsNonBlocking s"
    and "ret (k w (SYS_send (mDescriptor s) n 0)) = - 1"
    and "errno (k w (SYS_send (mDescriptor s) n 0)) = operation_would_block
         \<or> errno (k w (SYS_send (mDescriptor s) n 0)) = resource_unavailable_try_again"
  shows "TrySend k s n w = (Inr None, s\<lparr>mIsWritable := False\<rparr>, w @ [SYS_send (mDescriptor s) n 0])"
  using assms
  by (auto simp add: TrySend_def GetAndResetIsWritable_def SysCallBlocking_def invoke_def
      GetDescriptor_def Let_def)

lemma TryRecv_would_block:
  assumes "mIsReadable s \<or> \<not> mIsNonBlocking s"
    and "ret (k w (SYS_recv (mDescriptor s) n 0)) = - 1"
    and "errno (k w (SYS_recv (mDescriptor s) n 0)) = operation_would_block
         \<or> errno (k w (SYS_recv (mDescriptor s) n 0)) = resource_unavailable_try_again"
  shows "TryRecv k s n w = (Inr None, s\<lparr>mIsReadable := False\<rparr>, w @ [SYS_recv (mDescriptor s) n 0])"
  using assms
  by (auto simp add: TryRecv_def GetAndResetIsReadable_def SysCallBlocking_def invoke_def
      GetDescriptor_def Let_def)

lemma Accept_would_block:
  assumes "mIsReadable s \<or> \<not> mIsNonBlocking s"
    and "ret (k w (SYS_accept (mDescriptor s))) = - 1"
    and "errno (k w (SYS_accept (mDescriptor s))) = operation_would_block
         \<or> errno (k w (SYS_accept (mDescriptor s))) = resource_unavailable_try_again"
  shows "Accept k s w = (Inr None, s\<lparr>mIsReadable := False\<rparr>, w @ [SYS_accept (mDescriptor s)])"
  using assms
  by (auto simp add: Accept_def GetAndResetIsReadable_def SysCallBlocking_def invoke_def
      GetDescriptor_def Let_def)

lemma Update_sets_flags:
  assumes "\<not> IsErrored res" and "\<not> IsInvalid res" and "\<not> IsClosed res"
  shows "(IsReadable res \<longrightarrow> mIsReadable (fst (snd (Update k s res w))))
       \<and> (IsWritable res \<longrightarrow> mIsWritable (fst (snd (Update k s res w))))
       \<and> fst (Update k s res w) = Inr True"
  using assms by (simp add: Update_def Let_def)

text \<open>
  Claim C1, as the code has it. \<open>Update\<close> on an event that is not errored, invalid or
  closed sets the cached flag of each readiness bit the event has. A cached readable
  flag stays set across every sequence of calls that do not read it, namely \<open>Update\<close>
  and \<open>TrySend\<close>, so that the next \<open>TryRecv\<close> or \<open>Accept\<close> finds the gate open and issues
  its system call; likewise the writable flag across \<open>Update\<close>, \<open>TryRecv\<close> and \<open>Accept\<close>.
  The first attempt that reads a flag clears it, whatever that attempt then returns:
  after \<open>TryRecv\<close> or \<open>Accept\<close> the readable flag is false, after \<open>TrySend\<close> the writable
  flag is false. In particular, when the system call inside the attempt reports
  EWOULDBLOCK or EAGAIN, the attempt returns the empty optional and leaves the flag
  cleared.
\<close>

theorem readiness_kept_until_read:
  "(\<not> IsErrored res \<and> \<not> IsInvalid res \<and> \<not> IsClosed res \<longrightarrow>
       (IsReadable res \<longrightarrow> mIsReadable (fst (snd (Update k s res w))))
     \<and> (IsWritable res \<longrightarrow> mIsWritable (fst (snd (Update k s res w)))))
   \<and> (mIsReadable s \<and> (\<forall>a\<in>set ops. \<not> reads_readable a) \<longrightarrow>
       mIsReadable (fst (run_attempts k ops (s, w)))
     \<and> fst (GetAndResetIsReadable (fst (run_attempts k ops (s, w)))))
   \<and> (mIsWritable s \<and> (\<forall>a\<in>set ops. \<not> reads_writable a) \<longrightarrow>
       mIsWritable (fst (run_attempts k ops (s, w)))
     \<and> fst (GetAndResetIsWritable (fst (run_attempts k ops (s, w)))))
   \<and> (mIsReadable s \<longrightarrow> snd (snd (TryRecv k s n w)) = w @ [SYS_recv (mDescriptor s) n 0])
   \<and> (mIsReadable s \<longrightarrow> (\<exists>rest. snd (snd (Accept k s w)) = w @ SYS_accept (mDescriptor s) # rest))
   \<and> (mIsWritable s \<longrightarrow> snd (snd (TrySend k s n w)) = w @ [SYS_send (mDescriptor s) n 0])
   \<and> \<not> mIsReadable (fst (snd (TryRecv k s n w)))
   \<and> \<not> mIsReadable (fst (snd (Accept k s w)))
   \<and> \<not> mIsWritable (fst (snd (TrySend k s n w)))
   \<and> (mIsWritable s \<and> ret (k w (SYS_send (mDescriptor s) n 0)) = - 1
        \<and> (errno (k w (SYS_send (mDescriptor s) n 0)) = operation_would_block
           \<or> errno (k w (SYS_send (mDescriptor s) n 0)) = resource_unavailable_try_again) \<longrightarrow>
        TrySend k s n w = (Inr None, s\<lparr>mIsWritable := False\<rparr>, w @ [SYS_send (mDescriptor s) n 0]))
   \<and> (mIsReadable s \<and> ret (k w (SYS_recv (mDescriptor s) n 0)) = - 1
        \<and> (errno (k w (SYS_recv (mDescriptor s) n 0)) = operation_would_block
           \<or> errno (k w (SYS_recv (mDescriptor s) n 0)) = resource_unavailable_try_again) \<longrightarrow>
        TryRecv k s n w = (Inr None, s\<lparr>mIsReadable := False\<rparr>, w @ [SYS_recv (mDescriptor s) n 0]))
   \<and> (mIsReadable s \<and> ret (k w (SYS_accept (mDescriptor s))) = - 1
        \<and> (errno (k w (SYS_accept (mDescriptor s))) = operation_would_block
           \<or> errno (k w (SYS_accept (mDescriptor s))) = resource_unavailable_try_again) \<longrightarrow>
        Accept k s w = (Inr None, s\<lparr>mIsReadable := False\<rparr>, w @ [SYS_accept (mDescriptor s)]))"
proof -
  have u: "\<not> IsErrored res \<and> \<not> IsInvalid res \<and> \<not> IsClosed res \<Longrightarrow>
       (IsReadable res \<longrightarrow> mIsReadable (fst (snd (Update k s res w))))
     \<and> (IsWritable res \<longrightarrow> mIsWritable (fst (snd (Update k s res w))))"
    using Update_sets_flags [of res k s w] by simp
  have r: "mIsReadable s \<Longrightarrow> \<forall>a\<in>set ops. \<not> reads_readable a \<Longrightarrow>
      mIsReadable (fst (run_attempts k ops (s, w)))"
    using run_attempts_keep_readable [of "(s, w)" ops k] by simp
  have wr: "mIsWritable s \<Longrightarrow> \<forall>a\<in>set ops. \<not> reads_writable a \<Longrightarrow>
      mIsWritable (fst (run_attempts k ops (s, w)))"
    using run_attempts_keep_writable [of "(s, w)" ops k] by simp
  have a: "mIsReadable s \<Longrightarrow> \<exists>rest. snd (snd (Accept k s w)) = w @ SYS_accept (mDescriptor s) # rest"
    using Accept_world [of s k w] by simp
  have keep: "(mIsReadable s \<and> (\<forall>a\<in>set ops. \<not> reads_readable a) \<longrightarrow>
       mIsReadable (fst (run_attempts k ops (s, w)))
     \<and> fst (GetAndResetIsReadable (fst (run_attempts k ops (s, w)))))
   \<and> (mIsWritable s \<and> (\<forall>a\<in>set ops. \<not> reads_writable a) \<longrightarrow>
       mIsWritable (fst (run_attempts k ops (s, w)))
     \<and> fst (GetAndResetIsWritable (fst (run_attempts k ops (s, w)))))"
    using r wr by (simp add: GetAndResetIsReadable_def GetAndResetIsWritable_def Let_def)
  have gate: "(mIsReadable s \<longrightarrow> snd (snd (TryRecv k s n w)) = w @ [SYS_recv (mDescriptor s) n 0])
   \<and> (mIsReadable s \<longrightarrow> (\<exists>rest. snd (snd (Accept k s w)) = w @ SYS_accept (mDescriptor s) # rest))
   \<and> (mIsWritable s \<longrightarrow> snd (snd (TrySend k s n w)) = w @ [SYS_send (mDescriptor s) n 0])
   \<and> \<not> mIsReadable (fst (snd (TryRecv k s n w)))
   \<and> \<not> mIsReadable (fst (snd (Accept k s w)))
   \<and> \<not> mIsWritable (fst (snd (TrySend k s n w)))"
    using a by (simp add: TrySend_world TryRecv_world TrySend_socket TryRecv_socket Accept_socket)
  have wb: "(mIsWritable s \<and> ret (k w (SYS_send (mDescriptor s) n 0)) = - 1
        \<and> (errno (k w (SYS_send (mDescriptor s) n 0)) = operation_would_block
           \<or> errno (k w (SYS_send (mDescriptor s) n 0)) = resource_unavailable_try_again) \<longrightarrow>
        TrySend k s n w = (Inr None, s\<lparr>mIsWritable := False\<rparr>, w @ [SYS_send (mDescriptor s) n 0]))
   \<and> (mIsReadable s \<and> ret (k w (SYS_recv (mDescriptor s) n 0)) = - 1
        \<and> (errno (k w (SYS_recv (mDescriptor s) n 0)) = operation_would_block
           \<or> errno (k w (SYS_recv (mDescriptor s) n 0)) = resource_unavailable_try_again) \<longrightarrow>
        TryRecv k s n w = (Inr None, s\<lparr>mIsReadable := False\<rparr>, w @ [SYS_recv (mDescriptor s) n 0]))
   \<and> (mIsReadable s \<and> ret (k w (SYS_accept (mDescriptor s))) = - 1
        \<and> (errno (k w (SYS_accept (mDescriptor s))) = operation_would_block
           \<or> errno (k w (SYS_accept (mDescriptor s))) = resource_unavailable_try_again) \<longrightarrow>
        Accept k s w = (Inr None, s\<lparr>mIsReadable := False\<rparr>, w @ [SYS_accept (mDescriptor s)]))"
    using TrySend_would_block [of s k w n] TryRecv_would_block [of s k w n]
      Accept_would_block [of s k w]
    by blast
  from u keep gate wb show ?thesis
    by blast
qed

theorem readiness_kept_until_read_witness:
  "\<not> IsErrored (Result POLLIN) \<and> \<not> IsInvalid (Result POLLIN) \<and> \<not> IsClosed (Result POLLIN)
   \<and> IsReadable (Result POLLIN)
   \<and> snd (Update kernel_again socket_3 (Result POLLIN) []) = (socket_3\<lparr>mIsReadable := True\<rparr>, [])
   \<and> mIsReadable (socket_3\<lparr>mIsReadable := True\<rparr>)
   \<and> (\<forall>a\<in>set [DoTrySend 5, DoUpdate (Result POLLOUT), DoTrySend 5]. \<not> reads_readable a) = True
   \<and> mIsReadable (fst (run_attempts kernel_again [DoTrySend 5, DoUpdate (Result POLLOUT), DoTrySend 5]
        (socket_3\<lparr>mIsReadable := True\<rparr>, [])))
   \<and> ret (kernel_again [] (SYS_recv 3 5 0)) = - 1
   \<and> errno (kernel_again [] (SYS_recv 3 5 0)) = resource_unavailable_try_again
   \<and> TryRecv kernel_again (socket_3\<lparr>mIsReadable := True\<rparr>) 5 [] = (Inr None, socket_3, [SYS_recv 3 5 0])
   \<and> \<not> mIsReadable socket_3"
  using readiness_kept_until_read [where res = "Result POLLIN" and k = kernel_again
      and s = socket_3 and w = "[]" and ops = "[]" and n = 5]
    readiness_kept_until_read [where res = "Result POLLIN" and k = kernel_again
      and s = "socket_3\<lparr>mIsReadable := True\<rparr>" and w = "[]"
      and ops = "[DoTrySend 5, DoUpdate (Result POLLOUT), DoTrySend 5]" and n = 5]
  by (simp add: socket_3_def kernel_again_def reply_fail_def Update_def Let_def
      IsErrored_def IsInvalid_def IsClosed_def IsReadable_def IsWritable_def
      POLLERR_def POLLIN_def POLLOUT_def POLLHUP_def POLLNVAL_def)

text \<open>
  The claim as the specification states it fails: \<open>Update\<close> sets the writable flag, the
  \<^verbatim>\<open>send\<close> inside \<open>TrySend\<close> reports EAGAIN, \<open>TrySend\<close> returns the empty optional, and the
  flag is cleared all the same; the next \<open>TrySend\<close> issues no call although the kernel
  would now take the data.
\<close>

theorem readiness_lost_on_would_block:
  "Update kernel_again socket_3 (Result POLLOUT) [] = (Inr True, socket_3\<lparr>mIsWritable := True\<rparr>, [])
   \<and> ret (kernel_again [] (SYS_send 3 5 0)) = - 1
   \<and> errno (kernel_again [] (SYS_send 3 5 0)) = resource_unavailable_try_again
   \<and> TrySend kernel_again (socket_3\<lparr>mIsWritable := True\<rparr>) 5 [] = (Inr None, socket_3, [SYS_send 3 5 0])
   \<and> \<not> mIsWritable socket_3
   \<and> TrySend kernel_ok socket_3 5 [SYS_send 3 5 0] = (Inr None, socket_3, [SYS_send 3 5 0])"
  by (simp add: Update_def TrySend_def GetAndResetIsWritable_def SysCallBlocking_def invoke_def
      GetDescriptor_def kernel_again_def kernel_ok_def reply_fail_def reply_ok_def socket_3_def Let_def
      IsErrored_def IsInvalid_def IsClosed_def IsReadable_def IsWritable_def
      POLLERR_def POLLIN_def POLLOUT_def POLLHUP_def POLLNVAL_def
      resource_unavailable_try_again_def operation_would_block_def)

section \<open>Ownership of the descriptor\<close>

text \<open>
  Every operation on the store keeps, for each valid descriptor, the number of living
  objects that hold it plus the number of times it was closed.
\<close>

lemma holders_update:
  "i < length st \<Longrightarrow> holders d (st[i := y]) + holds d (st ! i) = holders d st + holds d y"
  unfolding holders_def
  by (induction st arbitrary: i) (auto split: nat.splits)

lemma holders_append: "holders d (st @ [y]) = holders d st + holds d y"
  by (simp add: holders_def)

lemma closes_destroy:
  "closes d (Socket_destroy k s w)
     = closes d w + (if mDescriptor s = d \<and> d \<noteq> sInvalidSocket then 1 else 0)"
  by (auto simp add: closes_def Socket_destroy_def SysCall_def invoke_def Let_def)

lemma run_op_conserves:
  assumes "run_op k x (st, w) = Some (st', w')" and "d \<noteq> sInvalidSocket"
  shows "holders d st' + closes d w' = holders d st + closes d w"
proof (cases x)
  case (MoveConstruct src)
  with assms obtain other where o: "src < length st" "st ! src = Some other"
    and st': "st' = st[src := Some (other\<lparr>mDescriptor := sInvalidSocket\<rparr>)] @ [Some (Socket_new (mDescriptor other))]"
    and w': "w' = w"
    by (auto simp add: Socket_move_def split: if_splits option.splits)
  have "holders d (st[src := Some (other\<lparr>mDescriptor := sInvalidSocket\<rparr>)]) + holds d (Some other)
        = holders d st + holds d (Some (other\<lparr>mDescriptor := sInvalidSocket\<rparr>))"
    using holders_update [OF o(1), of d] o(2) by simp
  then show ?thesis
    using assms(2) by (simp add: st' w' holders_append holds_def Socket_new_def)
next
  case (MoveAssign dst src)
  show ?thesis
  proof (cases "dst = src")
    case True
    with assms MoveAssign show ?thesis
      by (auto split: if_splits option.splits)
  next
    case False
    with assms MoveAssign obtain this rhs where o: "dst < length st" "src < length st"
      "st ! dst = Some this" "st ! src = Some rhs"
      and st': "st' = st[dst := Some (this\<lparr>mDescriptor := mDescriptor rhs\<rparr>),
                         src := Some (rhs\<lparr>mDescriptor := mDescriptor this\<rparr>)]"
      and w': "w' = w"
      by (auto simp add: Socket_move_assign_def split: if_splits option.splits)
    let ?st1 = "st[dst := Some (this\<lparr>mDescriptor := mDescriptor rhs\<rparr>)]"
    have a: "holders d ?st1 + holds d (Some this)
             = holders d st + holds d (Some (this\<lparr>mDescriptor := mDescriptor rhs\<rparr>))"
      using holders_update [OF o(1), of d] o(3) by simp
    have b: "holders d (?st1[src := Some (rhs\<lparr>mDescriptor := mDescriptor this\<rparr>)]) + holds d (Some rhs)
             = holders d ?st1 + holds d (Some (rhs\<lparr>mDescriptor := mDescriptor this\<rparr>))"
      using holders_update [of src ?st1 d] o(2) o(4) False by simp
    show ?thesis
      using a b by (simp add: st' w' holds_def split: if_splits)
  qed
next
  case (Destroy y)
  with assms obtain s where o: "y < length st" "st ! y = Some s"
    and st': "st' = st[y := None]" and w': "w' = Socket_destroy k s w"
    by (auto split: if_splits option.splits)
  have "holders d (st[y := None]) + holds d (Some s) = holders d st + holds d None"
    using holders_update [OF o(1), of d] o(2) by simp
  then show ?thesis
    using assms(2) by (simp add: st' w' closes_destroy holds_def split: if_splits)
qed

lemma run_ops_conserves:
  "run_ops k xs sw = Some sw' \<Longrightarrow> d \<noteq> sInvalidSocket \<Longrightarrow>
     holders d (fst sw') + closes d (snd sw') = holders d (fst sw) + closes d (snd sw)"
proof (induction xs arbitrary: sw)
  case Nil
  then show ?case by simp
next
  case (Cons x xs)
  then obtain sw1 where s1: "run_op k x sw = Some sw1" and s2: "run_ops k xs sw1 = Some sw'"
    by (auto split: option.splits)
  have "holders d (fst sw1) + closes d (snd sw1) = holders d (fst sw) + closes d (snd sw)"
    using run_op_conserves [of k x "fst sw" "snd sw" "fst sw1" "snd sw1" d] s1 Cons.prems(2) by simp
  with Cons.IH [OF s2 Cons.prems(2)] show ?case by simp
qed

text \<open>
  Claim C2, as the code has it. Move construction gives the descriptor to the new
  object and leaves the source empty. Move assignment swaps the two descriptors: the
  destination takes the source's, and the source is left with the one the destination
  held (empty only when the destination was). Destroying an object that holds a
  descriptor calls \<^verbatim>\<open>close\<close> on it once; destroying an empty one calls nothing. Over
  every program of move constructions, move assignments and destructions, the holders
  of a descriptor plus its closes stay constant, so a descriptor held by at most one
  object and not yet closed is closed at most once, and exactly once when no object
  holds it at the end.
\<close>

theorem ownership_and_single_close:
  "mDescriptor (fst (Socket_move s)) = mDescriptor s
   \<and> mDescriptor (snd (Socket_move s)) = sInvalidSocket
   \<and> mDescriptor (fst (Socket_move_assign a b)) = mDescriptor b
   \<and> mDescriptor (snd (Socket_move_assign a b)) = mDescriptor a
   \<and> (mDescriptor s \<noteq> sInvalidSocket \<longrightarrow> Socket_destroy k s w = w @ [SYS_close (mDescriptor s)])
   \<and> (mDescriptor s = sInvalidSocket \<longrightarrow> Socket_destroy k s w = w)
   \<and> (run_ops k xs (st, w) = Some (st', w') \<and> d \<noteq> sInvalidSocket \<longrightarrow>
        holders d st' + closes d w' = holders d st + closes d w)
   \<and> (run_ops k xs (st, w) = Some (st', w') \<and> d \<noteq> sInvalidSocket
        \<and> holders d st \<le> 1 \<and> closes d w = 0 \<longrightarrow>
        closes d w' \<le> 1 \<and> (holders d st = 1 \<and> holders d st' = 0 \<longrightarrow> closes d w' = 1))"
proof -
  have c: "run_ops k xs (st, w) = Some (st', w') \<Longrightarrow> d \<noteq> sInvalidSocket \<Longrightarrow>
      holders d st' + closes d w' = holders d st + closes d w"
    using run_ops_conserves [of k xs "(st, w)" "(st', w')" d] by simp
  have m: "mDescriptor (fst (Socket_move s)) = mDescriptor s
      \<and> mDescriptor (snd (Socket_move s)) = sInvalidSocket
      \<and> mDescriptor (fst (Socket_move_assign a b)) = mDescriptor b
      \<and> mDescriptor (snd (Socket_move_assign a b)) = mDescriptor a"
    by (simp add: Socket_move_def Socket_move_assign_def Socket_new_def)
  have dd: "(mDescriptor s \<noteq> sInvalidSocket \<longrightarrow> Socket_destroy k s w = w @ [SYS_close (mDescriptor s)])
      \<and> (mDescriptor s = sInvalidSocket \<longrightarrow> Socket_destroy k s w = w)"
    by (simp add: Socket_destroy_def SysCall_def invoke_def Let_def)
  from c m dd show ?thesis by auto
qed

theorem ownership_and_single_close_witness:
  "run_ops kernel_ok script_34 (store_34, []) = Some ([None, None, None], [SYS_close 3, SYS_close 4])
   \<and> (4 :: Descriptor) \<noteq> sInvalidSocket
   \<and> holders 4 store_34 = 1 \<and> closes 4 [] = 0
   \<and> holders 4 [None, None, None] = 0
   \<and> closes 4 [SYS_close 3, SYS_close 4] = 1
   \<and> Socket_destroy kernel_ok (Socket_new 4) [] = [SYS_close 4]
   \<and> Socket_destroy kernel_ok (snd (Socket_move (Socket_new 4))) [] = []"
  using ownership_and_single_close [of "Socket_new 4" "Socket_new 3" "Socket_new 4" kernel_ok "[]"
      script_34 store_34 "[None, None, None]" "[SYS_close 3, SYS_close 4]" 4]
    ownership_and_single_close [of "snd (Socket_move (Socket_new 4))" "Socket_new 3" "Socket_new 4"
      kernel_ok "[]" "[]" "[]" "[]" "[]" 4]
  by (simp add: script_34_def store_34_def Socket_move_def Socket_move_assign_def Socket_new_def
      Socket_destroy_def SysCall_def invoke_def sInvalidSocket_def holders_def holds_def closes_def
      Let_def)

text \<open>
  The claim as the specification states it fails for move assignment: assigning the
  socket that owns 4 to the socket that owns 3 leaves the source owning 3.
\<close>

theorem move_assign_leaves_source_owning:
  "Socket_move_assign (Socket_new 3) (Socket_new 4) = (Socket_new 4, Socket_new 3)
   \<and> mDescriptor (Socket_new 3) \<noteq> sInvalidSocket"
  by (simp add: Socket_move_assign_def Socket_new_def sInvalidSocket_def)

section \<open>LocalAddress from a path\<close>

lemma sPathOffset_unat: "unat sPathOffset = 2"
  by (simp add: sPathOffset_def sMaxSize_def sizeof_sockaddr_un_def sizeof_sun_path_def)

lemma sMaxSize_unat: "unat sMaxSize = 110"
  by (simp add: sMaxSize_def sizeof_sockaddr_un_def)

lemma mSize_init_unat:
  assumes "length path + 3 < 2 ^ 32"
  shows "unat (mSize_init path) = length path + 3"
proof -
  have "unat (mSize_init path) = (unat sPathOffset + length path + 1) mod 2 ^ LENGTH(32)"
    unfolding mSize_init_def by (rule unat_of_nat)
  also have "\<dots> = length path + 3"
    using assms by (simp add: sPathOffset_unat)
  finally show ?thesis .
qed

lemma takeWhile_no_NUL: "NUL \<notin> set path \<Longrightarrow> takeWhile (\<lambda>c. c \<noteq> NUL) path = path"
  by (induction path) auto

lemma strncpy_whole:
  assumes "NUL \<notin> set path" and "length path < sizeof_sun_path"
  shows "(strncpy (sun_path sockaddr_un_zero) path (length path))[length path := NUL]
           = path @ replicate (sizeof_sun_path - length path) NUL"
proof -
  let ?xs = "path @ replicate (sizeof_sun_path - length path) NUL"
  have "strncpy (sun_path sockaddr_un_zero) path (length path) = ?xs"
    by (simp add: strncpy_def sockaddr_un_zero_def takeWhile_no_NUL [OF assms(1)])
  moreover have "?xs ! length path = NUL"
    using assms(2) by (simp add: nth_append)
  moreover have "length path < length ?xs"
    using assms(2) by simp
  ultimately show ?thesis
    by (simp only: list_update_same_conv)
qed

lemma GetPath_terminated:
  assumes "NUL \<notin> set path" and "length path < sizeof_sun_path"
  shows "takeWhile (\<lambda>c. c \<noteq> NUL) (path @ replicate (sizeof_sun_path - length path) NUL) = path"
proof -
  obtain m where m: "sizeof_sun_path - length path = Suc m"
    using assms(2) by (cases "sizeof_sun_path - length path") auto
  have "takeWhile (\<lambda>c. c \<noteq> NUL) (path @ NUL # replicate m NUL) = takeWhile (\<lambda>c. c \<noteq> NUL) path"
    by (rule takeWhile_tail) simp
  then show ?thesis
    by (simp add: m takeWhile_no_NUL [OF assms(1)])
qed

lemma LocalAddress_path_ok:
  assumes "path \<noteq> []" and "unat sPathOffset + length path + 1 \<le> sizeof_sockaddr_un"
    and "NUL \<notin> set path"
  shows "LocalAddress_path path =
           Inr \<lparr>mSize = mSize_init path,
                mAddress = \<lparr>sun_family = sFamily,
                             sun_path = path @ replicate (sizeof_sun_path - length path) NUL\<rparr>\<rparr>"
proof -
  have len: "length path < sizeof_sun_path"
    using assms(2) by (simp add: sPathOffset_unat sizeof_sockaddr_un_def sizeof_sun_path_def)
  then have "length path + 3 < 2 ^ 32"
    by (simp add: sizeof_sun_path_def)
  then have u: "unat (mSize_init path) = length path + 3"
    by (rule mSize_init_unat)
  have le: "\<not> mSize_init path > sMaxSize"
    using len by (simp add: word_less_nat_alt u sMaxSize_unat sizeof_sun_path_def)
  show ?thesis
    using assms(1) le len strncpy_whole [OF assms(3) len]
    by (simp add: LocalAddress_path_def Let_def)
qed

lemma LocalAddress_path_long:
  assumes "sizeof_sockaddr_un < unat sPathOffset + length path + 1" and "length path + 3 < 2 ^ 32"
  shows "LocalAddress_path path = Inl (LengthError ''path too long'')"
proof -
  have u: "unat (mSize_init path) = length path + 3"
    using assms(2) by (rule mSize_init_unat)
  have "mSize_init path > sMaxSize"
    using assms(1) by (simp add: word_less_nat_alt u sMaxSize_unat sPathOffset_unat sizeof_sockaddr_un_def)
  moreover have "path \<noteq> []"
    using assms(1) by (auto simp add: sPathOffset_unat sizeof_sockaddr_un_def)
  ultimately show ?thesis
    by (simp add: LocalAddress_path_def Let_def)
qed

text \<open>
  On the paths the specification admits (no NUL byte inside) the constructor does what
  is asked of it, as long as the size does not wrap. A path that is not empty and fits
  the record with its terminator (header, path and one byte are at most the size of the
  record) is accepted and \<open>GetPath\<close> reads it back; the path array keeps its size and
  holds NUL right after the path, and the logical size is header plus path plus one,
  within the record. The empty path fails with \<open>InvalidArgument\<close>. A path that does not
  fit fails with \<open>LengthError\<close> when header plus length plus one is below \<open>2^32\<close>.
\<close>

lemma LocalAddress_roundtrip:
  "(path \<noteq> [] \<and> unat sPathOffset + length path + 1 \<le> sizeof_sockaddr_un \<and> NUL \<notin> set path \<longrightarrow>
      (\<exists>a. LocalAddress_path path = Inr a
           \<and> GetPath a = path
           \<and> length (sun_path (mAddress a)) = sizeof_sun_path
           \<and> sun_path (mAddress a) ! length path = NUL
           \<and> unat (LocalAddress_GetSize a) = unat sPathOffset + length path + 1
           \<and> LocalAddress_GetSize a \<le> sMaxSize))
   \<and> LocalAddress_path [] = Inl (InvalidArgument ''path empty'')
   \<and> (sizeof_sockaddr_un < unat sPathOffset + length path + 1 \<and> length path + 3 < 2 ^ 32 \<longrightarrow>
        LocalAddress_path path = Inl (LengthError ''path too long''))"
proof -
  have a: "\<exists>a. LocalAddress_path path = Inr a
           \<and> GetPath a = path
           \<and> length (sun_path (mAddress a)) = sizeof_sun_path
           \<and> sun_path (mAddress a) ! length path = NUL
           \<and> unat (LocalAddress_GetSize a) = unat sPathOffset + length path + 1
           \<and> LocalAddress_GetSize a \<le> sMaxSize"
    if h: "path \<noteq> []" "unat sPathOffset + length path + 1 \<le> sizeof_sockaddr_un" "NUL \<notin> set path"
  proof -
    have len: "length path < sizeof_sun_path"
      using h(2) by (simp add: sPathOffset_unat sizeof_sockaddr_un_def sizeof_sun_path_def)
    then have "length path + 3 < 2 ^ 32"
      by (simp add: sizeof_sun_path_def)
    then have u: "unat (mSize_init path) = length path + 3"
      by (rule mSize_init_unat)
    show ?thesis
      using LocalAddress_path_ok [OF h] GetPath_terminated [OF h(3) len] len u
      by (simp add: GetPath_def LocalAddress_GetSize_def nth_append word_le_nat_alt sMaxSize_unat
          sPathOffset_unat sizeof_sun_path_def)
  qed
  have b: "LocalAddress_path [] = Inl (InvalidArgument ''path empty'')"
    by (simp add: LocalAddress_path_def Let_def)
  from a b LocalAddress_path_long show ?thesis by blast
qed

text \<open>
  Claim C8. The claim fails where the size wraps. \<^verbatim>\<open>mSize\<close> is narrowed to 32 bits before
  it is compared with \<^verbatim>\<open>sMaxSize\<close>, so for a path of \<open>2^32 - 2\<close> bytes, far longer than
  the record can hold, \<^verbatim>\<open>mSize\<close> is 1, the check \<^verbatim>\<open>mSize > sMaxSize\<close> passes, no
  \<open>LengthError\<close> is thrown, and \<^verbatim>\<open>strncpy\<close> writes past \<^verbatim>\<open>sun_path\<close>.
\<close>

theorem LocalAddress_path_size_wraps:
  "length (replicate (2 ^ 32 - 2) CHR ''a'') = 2 ^ 32 - 2
   \<and> sizeof_sockaddr_un < unat sPathOffset + length (replicate (2 ^ 32 - 2) CHR ''a'') + 1
   \<and> unat (mSize_init (replicate (2 ^ 32 - 2) CHR ''a'')) = 1
   \<and> LocalAddress_path (replicate (2 ^ 32 - 2) CHR ''a'') = Inl UndefinedBehaviour"
proof -
  let ?p = "replicate (2 ^ 32 - 2) CHR ''a''"
  have l: "length ?p = 2 ^ 32 - 2"
    by simp
  have "unat (mSize_init ?p) = (unat sPathOffset + length ?p + 1) mod 2 ^ LENGTH(32)"
    unfolding mSize_init_def by (rule unat_of_nat)
  then have u: "unat (mSize_init ?p) = 1"
    by (simp add: sPathOffset_unat)
  then have "\<not> mSize_init ?p > sMaxSize"
    by (simp add: word_less_nat_alt sMaxSize_unat)
  moreover have "?p \<noteq> []"
    by simp
  moreover have "sizeof_sun_path \<le> length ?p"
    by (simp add: sizeof_sun_path_def)
  ultimately have "LocalAddress_path ?p = Inl UndefinedBehaviour"
    unfolding LocalAddress_path_def Let_def by (simp only: if_True if_False)
  moreover have "sizeof_sockaddr_un < unat sPathOffset + length ?p + 1"
    by (simp add: sizeof_sockaddr_un_def sPathOffset_unat)
  ultimately show ?thesis
    using l u by blast
qed

section \<open>The poller's list\<close>

lemma GetSize_sint:
  assumes "length (mPollList p) < 2 ^ 31"
  shows "sint (Poller_GetSize p) = int (length (mPollList p))"
proof -
  have "sint (word_of_nat (length (mPollList p)) :: int32)
          = signed_take_bit (LENGTH(32) - Suc 0) (int (length (mPollList p)))"
    by (simp add: signed_of_nat del: of_nat_less_numeral_power_cancel_iff)
  also have "\<dots> = int (length (mPollList p))"
    using assms by (intro signed_take_bit_int_eq_self) simp_all
  finally show ?thesis by (simp only: Poller_GetSize_def)
qed

lemma Remove_in_range:
  assumes "0 \<le> sint idx" and "nat (sint idx) < length (mPollList p)"
  shows "\<exists>p'. Remove p idx = Inr p'
           \<and> mPollList p' = take (nat (sint idx)) (mPollList p) @ drop (Suc (nat (sint idx))) (mPollList p)
           \<and> length (mPollList p') = length (mPollList p) - 1
           \<and> (\<forall>j. j < nat (sint idx) \<longrightarrow> mPollList p' ! j = mPollList p ! j)
           \<and> (\<forall>j. nat (sint idx) \<le> j \<and> j < length (mPollList p') \<longrightarrow>
                 mPollList p' ! j = mPollList p ! Suc j)"
  using assms by (auto simp add: Remove_def nth_append min_def)

text \<open>
  Claim C9, as the code has it. \<open>AddAcceptor\<close> appends an entry whose interest mask is
  readable only, \<open>AddConnector\<close> one whose mask is readable and writable (neither asks
  for priority events), both with no returned events. \<open>GetSize\<close> returns the number of
  entries cast to \<^verbatim>\<open>int\<close>, which is that number whenever it is below \<open>2^31\<close>. \<open>Remove\<close> at
  the index of an entry drops that entry and no other: the list is one shorter, the
  entries before the index keep their place and those after it move down by one.
\<close>

theorem Poller_entries:
  "mPollList (AddAcceptor p d) = mPollList p @ [\<lparr>fd = d, events = Readable, revents = 0\<rparr>]
   \<and> mPollList (AddConnector p d) = mPollList p @ [\<lparr>fd = d, events = Readable OR Writable, revents = 0\<rparr>]
   \<and> IsReadable (Result Readable) \<and> \<not> IsWritable (Result Readable) \<and> \<not> IsPriority (Result Readable)
   \<and> IsReadable (Result (Readable OR Writable)) \<and> IsWritable (Result (Readable OR Writable))
   \<and> \<not> IsPriority (Result (Readable OR Writable))
   \<and> Poller_GetSize p = word_of_nat (length (mPollList p))
   \<and> (length (mPollList p) < 2 ^ 31 \<longrightarrow> sint (Poller_GetSize p) = int (length (mPollList p)))
   \<and> (0 \<le> sint idx \<and> nat (sint idx) < length (mPollList p) \<longrightarrow>
        (\<exists>p'. Remove p idx = Inr p'
           \<and> mPollList p' = take (nat (sint idx)) (mPollList p) @ drop (Suc (nat (sint idx))) (mPollList p)
           \<and> length (mPollList p') = length (mPollList p) - 1
           \<and> (\<forall>j. j < nat (sint idx) \<longrightarrow> mPollList p' ! j = mPollList p ! j)
           \<and> (\<forall>j. nat (sint idx) \<le> j \<and> j < length (mPollList p') \<longrightarrow>
                 mPollList p' ! j = mPollList p ! Suc j)))"
proof -
  have a: "mPollList (AddAcceptor p d) = mPollList p @ [\<lparr>fd = d, events = Readable, revents = 0\<rparr>]
     \<and> mPollList (AddConnector p d) = mPollList p @ [\<lparr>fd = d, events = Readable OR Writable, revents = 0\<rparr>]"
    by (simp add: AddAcceptor_def AddConnector_def)
  have m: "IsReadable (Result Readable) \<and> \<not> IsWritable (Result Readable) \<and> \<not> IsPriority (Result Readable)
     \<and> IsReadable (Result (Readable OR Writable)) \<and> IsWritable (Result (Readable OR Writable))
     \<and> \<not> IsPriority (Result (Readable OR Writable))"
    by (simp add: IsReadable_def IsWritable_def IsPriority_def Readable_def Writable_def
        POLLIN_def POLLOUT_def POLLPRI_def)
  have g: "Poller_GetSize p = word_of_nat (length (mPollList p))"
    by (simp add: Poller_GetSize_def)
  from a m g GetSize_sint [of p] Remove_in_range [of idx p] show ?thesis
    by blast
qed

theorem Poller_entries_witness:
  "mPollList poller_345 =
     [\<lparr>fd = 3, events = Readable, revents = 0\<rparr>,
      \<lparr>fd = 4, events = Readable OR Writable, revents = 0\<rparr>,
      \<lparr>fd = 5, events = Readable OR Writable, revents = 0\<rparr>]
   \<and> length (mPollList poller_345) < 2 ^ 31
   \<and> sint (Poller_GetSize poller_345) = 3
   \<and> 0 \<le> sint (1 :: int32) \<and> nat (sint (1 :: int32)) < length (mPollList poller_345)
   \<and> Remove poller_345 1 =
       Inr \<lparr>mPollList = [\<lparr>fd = 3, events = Readable, revents = 0\<rparr>,
                         \<lparr>fd = 5, events = Readable OR Writable, revents = 0\<rparr>]\<rparr>"
  using Poller_entries [of poller_345 5 1]
  by (simp add: poller_345_def AddAcceptor_def AddConnector_def Remove_def Poller_GetSize_def)

text \<open>
  The claim as the specification states it fails for \<open>GetSize\<close> on a list that an \<^verbatim>\<open>int\<close>
  cannot count: with \<open>2^31\<close> entries it returns \<open>- 2^31\<close>.
\<close>

theorem Poller_GetSize_wraps:
  "length (mPollList poller_huge) = 2 ^ 31
   \<and> sint (Poller_GetSize poller_huge) = - (2 ^ 31)"
proof -
  have l: "length (mPollList poller_huge) = 2 ^ 31"
    by (simp add: poller_huge_def)
  have "sint (word_of_nat (2 ^ 31) :: int32) = - (2 ^ 31)"
    by simp
  with l show ?thesis
    by (simp add: Poller_GetSize_def)
qed

text \<open>
  Claim C10, as the code has it. For every index below 0 or at least the number of
  watched entries, \<open>At\<close> throws \<open>OutOfRange\<close>; for every other index it returns the
  returned events of that entry; the poller is unchanged either way. While the list has
  fewer than \<open>2^31\<close> entries, that range is \<open>[0, GetSize())\<close>.
\<close>

theorem At_bounds_checked:
  "(sint idx < 0 \<or> int (length (mPollList p)) \<le> sint idx \<longrightarrow> At p idx = (Inl OutOfRange, p))
   \<and> (0 \<le> sint idx \<and> sint idx < int (length (mPollList p)) \<longrightarrow>
        At p idx = (Inr (Result (revents (mPollList p ! nat (sint idx)))), p))
   \<and> snd (At p idx) = p
   \<and> (length (mPollList p) < 2 ^ 31 \<and> (sint idx < 0 \<or> sint (Poller_GetSize p) \<le> sint idx) \<longrightarrow>
        At p idx = (Inl OutOfRange, p))"
proof -
  have a: "sint idx < 0 \<or> int (length (mPollList p)) \<le> sint idx \<Longrightarrow> At p idx = (Inl OutOfRange, p)"
    by (auto simp add: At_def)
  have b: "0 \<le> sint idx \<and> sint idx < int (length (mPollList p)) \<Longrightarrow>
        At p idx = (Inr (Result (revents (mPollList p ! nat (sint idx)))), p)"
    by (auto simp add: At_def)
  have c: "snd (At p idx) = p"
    by (simp add: At_def)
  from a b c GetSize_sint [of p] show ?thesis
    by auto
qed

theorem At_bounds_checked_witness:
  "int (length (mPollList poller_345)) \<le> sint (3 :: int32)
   \<and> At poller_345 3 = (Inl OutOfRange, poller_345)
   \<and> sint (- 1 :: int32) < 0
   \<and> At poller_345 (- 1) = (Inl OutOfRange, poller_345)
   \<and> At poller_345 2 = (Inr (Result 0), poller_345)"
  using At_bounds_checked [of 3 poller_345] At_bounds_checked [of "- 1" poller_345]
    At_bounds_checked [of 2 poller_345]
  by (simp add: poller_345_def AddAcceptor_def AddConnector_def At_def)

text \<open>
  The claim as the specification states it, with the range \<open>[0, GetSize())\<close>, fails on
  the list of \<open>2^31\<close> entries: \<open>GetSize\<close> is negative there, so index 0 is outside the
  range, and \<open>At\<close> returns its entry.
\<close>

theorem At_inside_wrapped_size:
  "\<not> (0 \<le> sint (0 :: int32) \<and> sint (0 :: int32) < sint (Poller_GetSize poller_huge))
   \<and> At poller_huge 0 = (Inr (Result 0), poller_huge)"
proof -
  have l: "length (mPollList poller_huge) = 2 ^ 31"
    by (simp add: poller_huge_def)
  have g: "sint (Poller_GetSize poller_huge) = - (2 ^ 31)"
    using l by (simp add: Poller_GetSize_def)
  have n: "mPollList poller_huge ! 0 = entry_3"
    by (simp add: poller_huge_def)
  have "At poller_huge 0 = (Inr (Result (revents (mPollList poller_huge ! 0))), poller_huge)"
    using l by (simp add: At_def)
  with g n show ?thesis
    by (simp add: entry_3_def)
qed

section \<open>Construction of an outbound connector\<close>

text \<open>
  Claim C3, as the code has it. The constructor calls \<^verbatim>\<open>connect\<close> through \<open>SysCall\<close> and
  unwraps the result, so once the socket is open and the address built, every failure
  of \<^verbatim>\<open>connect\<close> is thrown as a \<open>SystemError\<close> carrying its code, EWOULDBLOCK and EAGAIN
  included, and the descriptor is closed again; when \<^verbatim>\<open>connect\<close> succeeds the connector
  is returned. The constructor has no third outcome.
\<close>

theorem connect_failure_is_thrown:
  assumes "LocalSocket_path k path w = (Inr s, w1)"
    and "c = SYS_connect (mDescriptor s) (mAddress (mLocalAddress s)) (mSize (mLocalAddress s))"
  shows "(ret (k w1 c) = - 1 \<and> errno (k w1 c) \<noteq> 0 \<longrightarrow>
            LocalConnectorSocket_path k path w
              = (Inl (SystemError (errno (k w1 c))), Socket_destroy k s (w1 @ [c])))
       \<and> (ret (k w1 c) = - 1
            \<and> (errno (k w1 c) = operation_would_block \<or> errno (k w1 c) = resource_unavailable_try_again) \<longrightarrow>
            fst (LocalConnectorSocket_path k path w) = Inl (SystemError (errno (k w1 c))))
       \<and> (ret (k w1 c) \<noteq> - 1 \<longrightarrow> LocalConnectorSocket_path k path w = (Inr s, w1 @ [c]))"
  using assms
  by (auto simp add: LocalConnectorSocket_path_def Connect_def SysCall_def invoke_def Let_def
      GetDescriptor_def LocalAddress_GetSize_def Unwrap_def IsError_def SysReturn_int_def
      SysReturn_errc_def sNotAnError_def operation_would_block_def resource_unavailable_try_again_def)

text \<open>The construction for \<^verbatim>\<open>"/tmp/x.sock"\<close> up to the call of \<^verbatim>\<open>connect\<close>.\<close>

lemma LocalAddress_path_x: "LocalAddress_path ''/tmp/x.sock'' = Inr address_x"
proof -
  have "mSize_init ''/tmp/x.sock'' = 14"
    by (simp add: mSize_init_def sPathOffset_unat)
  then show ?thesis
    using LocalAddress_path_ok [of "''/tmp/x.sock''"]
    by (simp add: sPathOffset_unat sizeof_sockaddr_un_def sizeof_sun_path_def NUL_def address_x_def
        sFamily_def)
qed

lemma LocalSocket_path_x:
  "LocalSocket_path kernel_connect_again ''/tmp/x.sock'' []
     = (Inr (socket_3\<lparr>mLocalAddress := address_x\<rparr>),
        [SYS_socket 1 5 0, SYS_fcntl 3 F_GETFL 0, SYS_fcntl 3 F_SETFL O_NONBLOCK])"
  by (simp add: LocalSocket_path_def Socket_open_def SetNonBlocking_def GetStatusFlags_def
      SetStatusFlags_def SysCall_def invoke_def Let_def kernel_connect_again_def reply_ok_def
      Unwrap_def IsError_def SysReturn_int_def sNotAnError_def Socket_new_def LocalSocket_of_def
      LocalAddress_path_x socket_3_def sDomain_def sType_def sProtocol_def AF_UNIX_def
      SOCK_SEQPACKET_def)

theorem connect_failure_is_thrown_witness:
  "LocalSocket_path kernel_connect_again ''/tmp/x.sock'' []
     = (Inr (socket_3\<lparr>mLocalAddress := address_x\<rparr>),
        [SYS_socket 1 5 0, SYS_fcntl 3 F_GETFL 0, SYS_fcntl 3 F_SETFL O_NONBLOCK])
   \<and> ret (kernel_connect_again [SYS_socket 1 5 0, SYS_fcntl 3 F_GETFL 0, SYS_fcntl 3 F_SETFL O_NONBLOCK]
           (SYS_connect 3 (mAddress address_x) 14)) = - 1
   \<and> errno (kernel_connect_again [SYS_socket 1 5 0, SYS_fcntl 3 F_GETFL 0, SYS_fcntl 3 F_SETFL O_NONBLOCK]
           (SYS_connect 3 (mAddress address_x) 14)) = resource_unavailable_try_again
   \<and> fst (LocalConnectorSocket_path kernel_connect_again ''/tmp/x.sock'' [])
       = Inl (SystemError resource_unavailable_try_again)"
  using connect_failure_is_thrown [OF LocalSocket_path_x refl]
  by (simp add: LocalSocket_path_x kernel_connect_again_def reply_fail_def socket_3_def address_x_def
      resource_unavailable_try_again_def)

text \<open>
  The claim as the specification states it fails: when \<^verbatim>\<open>connect\<close> reports EAGAIN the
  construction throws \<open>SystemError\<close> with that code, after closing the descriptor.
\<close>

theorem connect_would_block_is_thrown:
  "LocalConnectorSocket_path kernel_connect_again ''/tmp/x.sock'' []
     = (Inl (SystemError resource_unavailable_try_again),
        [SYS_socket 1 5 0, SYS_fcntl 3 F_GETFL 0, SYS_fcntl 3 F_SETFL O_NONBLOCK,
         SYS_connect 3 (mAddress address_x) 14, SYS_close 3])"
  by (simp add: LocalConnectorSocket_path_def LocalSocket_path_x Connect_def SysCall_def invoke_def
      Let_def kernel_connect_again_def reply_ok_def reply_fail_def Unwrap_def IsError_def
      SysReturn_int_def SysReturn_errc_def sNotAnError_def socket_3_def GetDescriptor_def
      LocalAddress_GetSize_def address_x_def Socket_destroy_def sInvalidSocket_def
      resource_unavailable_try_again_def)

end
